theory Spec2Isabelle
  imports Main
begin

section \<open>Versioned serialization of tree-ensemble models\<close>

text \<open>
  A shallow embedding of \<^verbatim>\<open>src/serializer.cc\<close> and of \<^verbatim>\<open>task_type.h\<close>.
  Fixed-width integers are kept as their values (\<open>int\<close> for \<^verbatim>\<open>std::int32_t\<close>,
  \<open>nat\<close> for \<^verbatim>\<open>std::uint64_t\<close>, \<^verbatim>\<open>std::uint32_t\<close> and \<^verbatim>\<open>std::size_t\<close>): the
  serializer does no arithmetic on them, and its one mixed-sign comparison is written out
  in \<open>size_t_of_int32\<close>. Floating-point members are carried verbatim by the code, so they
  are kept as their bit patterns (\<open>nat\<close>). A fatal log entry (\<^verbatim>\<open>TREELITE_LOG(FATAL)\<close>, a
  failed \<^verbatim>\<open>TREELITE_CHECK_EQ\<close>) throws: it is the \<open>Inl\<close> branch of a sum. A member whose
  name ends in an underscore has a prime appended here (\<^verbatim>\<open>nodes_\<close> is \<open>nodes_'\<close>), such names
  being reserved.
\<close>

subsection \<open>Errors and log entries\<close>

datatype error =
    UnknownTaskType string
  | IncorrectNumberOfTrees
  | IncorrectNumberOfNodes
  | CouldNotLoadNodes
  | DifferentMajorVersion int int int
  | OnlyFormatV3OrLater
  | LayoutMismatch
  | EndOfInput
  | UnsupportedTypePair

text \<open>
  The two \<^verbatim>\<open>TREELITE_LOG(WARNING)\<close> entries of the header decoder; the second one prints
  the stored version.
\<close>

datatype warning =
    OriginatedFromV39
  | OriginatedFromNewerVersion int int int

text \<open>Sequencing of fallible steps: the first error ends the run, as a throw does.\<close>

definition and_then :: "error + 'a \<Rightarrow> ('a \<Rightarrow> error + 'b) \<Rightarrow> error + 'b" where
  "and_then r f = (case r of Inl e \<Rightarrow> Inl e | Inr x \<Rightarrow> f x)"

subsection \<open>Task type (task\_type.h)\<close>

datatype TaskType = kBinaryClf | kRegressor | kMultiClf | kLearningToRank | kIsolationForest

text \<open>
  \<^verbatim>\<open>TaskTypeToString\<close>: the \<^verbatim>\<open>default: return ""\<close> branch of the switch has no
  enumerator to apply to.
\<close>

fun TaskTypeToString :: "TaskType \<Rightarrow> string" where
  "TaskTypeToString kBinaryClf = ''kBinaryClf''"
| "TaskTypeToString kRegressor = ''kRegressor''"
| "TaskTypeToString kMultiClf = ''kMultiClf''"
| "TaskTypeToString kLearningToRank = ''kLearningToRank''"
| "TaskTypeToString kIsolationForest = ''kIsolationForest''"

definition StringToTaskType :: "string \<Rightarrow> error + TaskType" where
  "StringToTaskType str =
     (if str = ''kBinaryClf'' then Inr kBinaryClf
      else if str = ''kRegressor'' then Inr kRegressor
      else if str = ''kMultiClf'' then Inr kMultiClf
      else if str = ''kLearningToRank'' then Inr kLearningToRank
      else if str = ''kIsolationForest'' then Inr kIsolationForest
      else Inl (UnknownTaskType str))"

subsection \<open>Records of the legacy (v3) format, as declared in serializer.cc\<close>

datatype TaskTypeV3 =
  kBinaryClfRegr | kMultiClfGrovePerClass | kMultiClfProbDistLeaf | kMultiClfCategLeaf

datatype OutputType = kFloat | kInt

record TaskParamV3 =
  output_type :: OutputType
  grove_per_class :: bool
  num_class :: nat
  leaf_vector_size :: nat

record ModelParamV3 =
  pred_transform :: string
  sigmoid_alpha :: nat
  ratio_c :: nat
  global_bias :: nat

text \<open>
  \<^verbatim>\<open>NodeV3<ThresholdType, LeafOutputType>\<close>. The union \<^verbatim>\<open>info_\<close> is one value slot;
  \<^verbatim>\<open>split_type_\<close> and \<^verbatim>\<open>cmp_\<close> are enumerations declared outside the source at hand and
  are kept as their underlying integers.
\<close>

record NodeV3 =
  cleft_' :: int
  cright_' :: int
  sindex_' :: nat
  info_' :: nat
  data_count_' :: nat
  sum_hess_' :: nat
  gain_' :: nat
  split_type_' :: nat
  cmp_' :: int
  data_count_present_' :: bool
  sum_hess_present_' :: bool
  gain_present_' :: bool
  categories_list_right_child_' :: bool

subsection \<open>The model (declared in treelite/tree.h, used by serializer.cc)\<close>

text \<open>
  The headers \<^verbatim>\<open>treelite/tree.h\<close> and \<^verbatim>\<open>treelite/typeinfo.h\<close> are not part of the source
  at hand. The types below hold exactly the members that \<^verbatim>\<open>serializer.cc\<close> reads and
  writes, with the types its calls fix.
\<close>

text \<open>
  Modelled from the spec: the enumeration \<^verbatim>\<open>TypeInfo\<close> of \<^verbatim>\<open>treelite/typeinfo.h\<close>, the closed
  set of numeric kinds a threshold type or a leaf-output type is drawn from.
\<close>

datatype TypeInfo = kInvalid | kUInt32 | kFloat32 | kFloat64

text \<open>
  Modelled from the spec: the task-parameter and model-parameter composites of
  \<^verbatim>\<open>treelite/tree.h\<close>. Their members are the ones that the layout descriptors in
  \<open>SerializeHeader\<close> enumerate (\<^verbatim>\<open>T{=B=?xx=I=I}\<close> and \<^verbatim>\<open>T{<N>s=f=f=f}\<close>), which is the layout
  of the v3 records above.
\<close>

type_synonym TaskParam = TaskParamV3

type_synonym ModelParam = ModelParamV3

text \<open>
  Modelled from the spec: \<^verbatim>\<open>Tree<ThresholdType, LeafOutputType>\<close> of \<^verbatim>\<open>treelite/tree.h\<close>: the
  declared node count, the categorical-split flag, the node array, the four side arrays
  and the two reserved extension counts. The node record of the current format is not
  interpreted by the serializer and stays a type parameter \<open>'n\<close>.
\<close>

record 'n Tree =
  num_nodes :: int
  has_categorical_split_' :: bool
  nodes_' :: "'n list"
  leaf_vector_' :: "nat list"
  leaf_vector_begin_' :: "nat list"
  leaf_vector_end_' :: "nat list"
  matching_categories_' :: "nat list"
  matching_categories_offset_' :: "nat list"
  num_opt_field_per_tree_' :: int
  num_opt_field_per_node_' :: int

text \<open>
  Modelled from the spec: the alternative held by \<^verbatim>\<open>model.variant_\<close>, which fixes the
  numeric type pair and holds the trees.
\<close>

record 'n ModelPreset =
  preset_threshold_type :: TypeInfo
  preset_leaf_output_type :: TypeInfo
  trees :: "'n Tree list"

text \<open>
  Modelled from the spec: \<^verbatim>\<open>Model\<close> of \<^verbatim>\<open>treelite/tree.h\<close>: version triple, stored type pair,
  stored tree count, feature count, task type, average-tree-output flag, the two
  parameter composites, the reserved extension count and the tree container.
\<close>

record 'n Model =
  major_ver_' :: int
  minor_ver_' :: int
  patch_ver_' :: int
  threshold_type_' :: TypeInfo
  leaf_output_type_' :: TypeInfo
  num_tree_' :: nat
  num_feature :: int
  task_type :: TaskType
  average_tree_output :: bool
  task_param :: TaskParam
  param :: ModelParam
  num_opt_field_per_model_' :: int
  variant_' :: "'n ModelPreset"

text \<open>
  Modelled from the spec: the accessors \<^verbatim>\<open>GetThresholdType\<close>, \<^verbatim>\<open>GetLeafOutputType\<close> and
  \<^verbatim>\<open>GetNumTree\<close> of \<^verbatim>\<open>Model\<close>, which read the type pair and the number of trees off the tree
  container.
\<close>

definition GetThresholdType :: "'n Model \<Rightarrow> TypeInfo" where
  "GetThresholdType model = preset_threshold_type (variant_' model)"

definition GetLeafOutputType :: "'n Model \<Rightarrow> TypeInfo" where
  "GetLeafOutputType model = preset_leaf_output_type (variant_' model)"

definition GetNumTree :: "'n Model \<Rightarrow> nat" where
  "GetNumTree model = length (trees (variant_' model))"

text \<open>
  What \<^verbatim>\<open>serializer.cc\<close> takes from headers that are not at hand: the version macros of
  \<^verbatim>\<open>treelite/version.h\<close>, the stringified \<^verbatim>\<open>TREELITE_MAX_PRED_TRANSFORM_LENGTH\<close>,
  \<^verbatim>\<open>Model::Create\<close> (which may reject a type pair), \<^verbatim>\<open>Tree::GetFormatStringForNode\<close> and the
  default-constructed \<^verbatim>\<open>Tree\<close> that \<^verbatim>\<open>emplace_back()\<close> appends. They are parameters of
  every function below.
\<close>

record 'n env =
  TREELITE_VER_MAJOR :: int
  TREELITE_VER_MINOR :: int
  TREELITE_VER_PATCH :: int
  TREELITE_MAX_PRED_TRANSFORM_LENGTH :: string
  Create :: "TypeInfo \<Rightarrow> TypeInfo \<Rightarrow> error + 'n Model"
  GetFormatStringForNode :: "TypeInfo \<Rightarrow> TypeInfo \<Rightarrow> string"
  Tree_ctor :: "'n Tree"

text \<open>
  \<^verbatim>\<open>TREELITE_CHECK_EQ(tree.num_nodes, tree.nodes_.Size())\<close> compares a 32-bit signed value
  with a \<^verbatim>\<open>std::size_t\<close>, and the decoder casts with \<^verbatim>\<open>static_cast<std::size_t>\<close>: the
  signed value is converted modulo \<open>2 ^ 64\<close>.
\<close>

definition size_t_of_int32 :: "int \<Rightarrow> nat" where
  "size_t_of_int32 n = nat (n mod 2 ^ 64)"

subsection \<open>The units a mixin writes and reads\<close>

text \<open>
  The serializer is a template over its mixin and calls four write operations. The value
  passed and the template argument of each call are recorded in one datatype: a primitive
  field with its C++ type, a composite field or a composite array with its layout
  descriptor, a primitive array with its element type (array elements are integers or
  bit patterns, all kept as \<open>nat\<close>).
\<close>

datatype scalar =
    Int32 int
  | UInt64 nat
  | Bool bool
  | TypeInfoField TypeInfo
  | TaskTypeField TaskType
  | TaskTypeV3Field TaskTypeV3

datatype composite =
    TaskParamComposite TaskParam
  | ModelParamComposite ModelParam

datatype elem_type = LeafOutputElem TypeInfo | SizeTElem | UInt32Elem

datatype 'n item =
    PrimitiveField scalar
  | CompositeField composite string
  | CompositeArray "'n list" string
  | PrimitiveArray elem_type "nat list"

type_synonym ('n, 'o) SerializerMixIn = "'n item \<Rightarrow> 'o \<Rightarrow> 'o"

definition SerializePrimitiveField :: "('n, 'o) SerializerMixIn \<Rightarrow> scalar \<Rightarrow> 'o \<Rightarrow> 'o" where
  "SerializePrimitiveField mixin x = mixin (PrimitiveField x)"

definition SerializeCompositeField ::
  "('n, 'o) SerializerMixIn \<Rightarrow> composite \<Rightarrow> string \<Rightarrow> 'o \<Rightarrow> 'o" where
  "SerializeCompositeField mixin x format = mixin (CompositeField x format)"

definition SerializeCompositeArray ::
  "('n, 'o) SerializerMixIn \<Rightarrow> 'n list \<Rightarrow> string \<Rightarrow> 'o \<Rightarrow> 'o" where
  "SerializeCompositeArray mixin xs format = mixin (CompositeArray xs format)"

definition SerializePrimitiveArray ::
  "('n, 'o) SerializerMixIn \<Rightarrow> elem_type \<Rightarrow> nat list \<Rightarrow> 'o \<Rightarrow> 'o" where
  "SerializePrimitiveArray mixin ty xs = mixin (PrimitiveArray ty xs)"

subsection \<open>Serializer\<close>

definition SerializeHeader ::
  "'n env \<Rightarrow> ('n, 'o) SerializerMixIn \<Rightarrow> 'n Model \<Rightarrow> 'o \<Rightarrow> 'n Model \<times> 'o" where
  "SerializeHeader env mixin model0 out0 =
     (let model = model0\<lparr>major_ver_' := TREELITE_VER_MAJOR env,
                          minor_ver_' := TREELITE_VER_MINOR env,
                          patch_ver_' := TREELITE_VER_PATCH env\<rparr>;
          out = SerializePrimitiveField mixin (Int32 (major_ver_' model)) out0;
          out = SerializePrimitiveField mixin (Int32 (minor_ver_' model)) out;
          out = SerializePrimitiveField mixin (Int32 (patch_ver_' model)) out;
          model = model\<lparr>threshold_type_' := GetThresholdType model\<rparr>;
          model = model\<lparr>leaf_output_type_' := GetLeafOutputType model\<rparr>;
          out = SerializePrimitiveField mixin (TypeInfoField (threshold_type_' model)) out;
          out = SerializePrimitiveField mixin (TypeInfoField (leaf_output_type_' model)) out;
          model = model\<lparr>num_tree_' := GetNumTree model\<rparr>;
          out = SerializePrimitiveField mixin (UInt64 (num_tree_' model)) out;
          out = SerializePrimitiveField mixin (Int32 (num_feature model)) out;
          out = SerializePrimitiveField mixin (TaskTypeField (task_type model)) out;
          out = SerializePrimitiveField mixin (Bool (average_tree_output model)) out;
          out = SerializeCompositeField mixin (TaskParamComposite (task_param model))
                  ''T{=B=?xx=I=I}'' out;
          out = SerializeCompositeField mixin (ModelParamComposite (param model))
                  (''T{'' @ TREELITE_MAX_PRED_TRANSFORM_LENGTH env @ ''s=f=f=f}'') out;
          model = model\<lparr>num_opt_field_per_model_' := 0\<rparr>;
          out = SerializePrimitiveField mixin (Int32 (num_opt_field_per_model_' model)) out
      in (model, out))"

text \<open>
  \<open>SerializeTree\<close> is a template over the numeric type pair; the pair is the argument
  \<open>types\<close>. A failed check throws before anything of the tree is written: the error
  carries the tree and the output as they are at the throw.
\<close>

definition SerializeTree ::
  "'n env \<Rightarrow> ('n, 'o) SerializerMixIn \<Rightarrow> TypeInfo \<times> TypeInfo \<Rightarrow> 'n Tree \<Rightarrow> 'o
     \<Rightarrow> (error \<times> 'n Tree \<times> 'o) + ('n Tree \<times> 'o)" where
  "SerializeTree env mixin types tree0 out0 =
     (if size_t_of_int32 (num_nodes tree0) \<noteq> length (nodes_' tree0)
      then Inl (IncorrectNumberOfNodes, tree0, out0)
      else
        let out = SerializePrimitiveField mixin (Int32 (num_nodes tree0)) out0;
            out = SerializePrimitiveField mixin (Bool (has_categorical_split_' tree0)) out;
            out = SerializeCompositeArray mixin (nodes_' tree0)
                    (GetFormatStringForNode env (fst types) (snd types)) out;
            out = SerializePrimitiveArray mixin (LeafOutputElem (snd types))
                    (leaf_vector_' tree0) out;
            out = SerializePrimitiveArray mixin SizeTElem (leaf_vector_begin_' tree0) out;
            out = SerializePrimitiveArray mixin SizeTElem (leaf_vector_end_' tree0) out;
            out = SerializePrimitiveArray mixin UInt32Elem (matching_categories_' tree0) out;
            out = SerializePrimitiveArray mixin SizeTElem
                    (matching_categories_offset_' tree0) out;
            tree = tree0\<lparr>num_opt_field_per_tree_' := 0\<rparr>;
            out = SerializePrimitiveField mixin (Int32 (num_opt_field_per_tree_' tree)) out;
            tree = tree\<lparr>num_opt_field_per_node_' := 0\<rparr>;
            out = SerializePrimitiveField mixin (Int32 (num_opt_field_per_node_' tree)) out
        in Inr (tree, out))"

text \<open>The loop \<^verbatim>\<open>for (auto& tree : concrete_model.trees) SerializeTree(tree)\<close>.\<close>

fun SerializeTrees_loop ::
  "'n env \<Rightarrow> ('n, 'o) SerializerMixIn \<Rightarrow> TypeInfo \<times> TypeInfo \<Rightarrow> 'n Tree list \<Rightarrow> 'o
     \<Rightarrow> (error \<times> 'n Tree list \<times> 'o) + ('n Tree list \<times> 'o)" where
  "SerializeTrees_loop env mixin types [] out = Inr ([], out)"
| "SerializeTrees_loop env mixin types (tree # rest) out =
     (case SerializeTree env mixin types tree out of
        Inl (e, tree', out') \<Rightarrow> Inl (e, tree' # rest, out')
      | Inr (tree', out') \<Rightarrow>
          (case SerializeTrees_loop env mixin types rest out' of
             Inl (e, rest', out'') \<Rightarrow> Inl (e, tree' # rest', out'')
           | Inr (rest', out'') \<Rightarrow> Inr (tree' # rest', out'')))"

definition SerializeTrees ::
  "'n env \<Rightarrow> ('n, 'o) SerializerMixIn \<Rightarrow> 'n Model \<Rightarrow> 'o
     \<Rightarrow> (error \<times> 'n Model \<times> 'o) + ('n Model \<times> 'o)" where
  "SerializeTrees env mixin model out =
     (let concrete_model = variant_' model in
      if length (trees concrete_model) \<noteq> num_tree_' model
      then Inl (IncorrectNumberOfTrees, model, out)
      else
        (case SerializeTrees_loop env mixin
                (preset_threshold_type concrete_model, preset_leaf_output_type concrete_model)
                (trees concrete_model) out of
           Inl (e, ts, out') \<Rightarrow>
             Inl (e, model\<lparr>variant_' := concrete_model\<lparr>trees := ts\<rparr>\<rparr>, out')
         | Inr (ts, out') \<Rightarrow>
             Inr (model\<lparr>variant_' := concrete_model\<lparr>trees := ts\<rparr>\<rparr>, out')))"

text \<open>
  The body shared by \<open>Model::GetPyBuffer\<close> and \<open>Model::SerializeToStream\<close>:
  \<open>SerializeHeader\<close>, then \<open>SerializeTrees\<close>, on one mixin.
\<close>

definition Serialize ::
  "'n env \<Rightarrow> ('n, 'o) SerializerMixIn \<Rightarrow> 'n Model \<Rightarrow> 'o
     \<Rightarrow> (error \<times> 'n Model \<times> 'o) + ('n Model \<times> 'o)" where
  "Serialize env mixin model out =
     (case SerializeHeader env mixin model out of
        (model', out') \<Rightarrow> SerializeTrees env mixin model' out')"

subsection \<open>Deserializer\<close>

text \<open>
  The deserializer is a template over its mixin and calls five operations of it. Each
  read hands back the next unit of the transport and the rest of the transport.
\<close>

record 's DeserializerMixIn =
  DeserializePrimitiveField :: "'s \<Rightarrow> error + (scalar \<times> 's)"
  DeserializeCompositeField :: "'s \<Rightarrow> error + (composite \<times> 's)"
  DeserializeCompositeArray :: "'s \<Rightarrow> error + (NodeV3 list \<times> 's)"
  DeserializePrimitiveArray :: "'s \<Rightarrow> error + (nat list \<times> 's)"
  SkipOptionalField :: "'s \<Rightarrow> error + 's"

text \<open>
  Modelled from the spec: the typed reads of \<^verbatim>\<open>treelite/detail/serializer_mixins.h\<close>, which
  is not part of the source at hand. The static type of the pointer a read is given is
  the reader's side of the layout contract; a unit of another type is the
  layout-descriptor mismatch that the design makes a fatal decode error. There is one
  definition per type the decoder instantiates; array elements are all kept as \<open>nat\<close> and
  need none.
\<close>

definition DeserializePrimitiveField_int32 ::
  "'s DeserializerMixIn \<Rightarrow> 's \<Rightarrow> error + (int \<times> 's)" where
  "DeserializePrimitiveField_int32 mixin s =
     and_then (DeserializePrimitiveField mixin s)
       (\<lambda>(x, s'). case x of Int32 v \<Rightarrow> Inr (v, s') | _ \<Rightarrow> Inl LayoutMismatch)"

definition DeserializePrimitiveField_uint64 ::
  "'s DeserializerMixIn \<Rightarrow> 's \<Rightarrow> error + (nat \<times> 's)" where
  "DeserializePrimitiveField_uint64 mixin s =
     and_then (DeserializePrimitiveField mixin s)
       (\<lambda>(x, s'). case x of UInt64 v \<Rightarrow> Inr (v, s') | _ \<Rightarrow> Inl LayoutMismatch)"

definition DeserializePrimitiveField_bool ::
  "'s DeserializerMixIn \<Rightarrow> 's \<Rightarrow> error + (bool \<times> 's)" where
  "DeserializePrimitiveField_bool mixin s =
     and_then (DeserializePrimitiveField mixin s)
       (\<lambda>(x, s'). case x of Bool v \<Rightarrow> Inr (v, s') | _ \<Rightarrow> Inl LayoutMismatch)"

definition DeserializePrimitiveField_TypeInfo ::
  "'s DeserializerMixIn \<Rightarrow> 's \<Rightarrow> error + (TypeInfo \<times> 's)" where
  "DeserializePrimitiveField_TypeInfo mixin s =
     and_then (DeserializePrimitiveField mixin s)
       (\<lambda>(x, s'). case x of TypeInfoField v \<Rightarrow> Inr (v, s') | _ \<Rightarrow> Inl LayoutMismatch)"

definition DeserializePrimitiveField_TaskType ::
  "'s DeserializerMixIn \<Rightarrow> 's \<Rightarrow> error + (TaskType \<times> 's)" where
  "DeserializePrimitiveField_TaskType mixin s =
     and_then (DeserializePrimitiveField mixin s)
       (\<lambda>(x, s'). case x of TaskTypeField v \<Rightarrow> Inr (v, s') | _ \<Rightarrow> Inl LayoutMismatch)"

definition DeserializePrimitiveField_TaskTypeV3 ::
  "'s DeserializerMixIn \<Rightarrow> 's \<Rightarrow> error + (TaskTypeV3 \<times> 's)" where
  "DeserializePrimitiveField_TaskTypeV3 mixin s =
     and_then (DeserializePrimitiveField mixin s)
       (\<lambda>(x, s'). case x of TaskTypeV3Field v \<Rightarrow> Inr (v, s') | _ \<Rightarrow> Inl LayoutMismatch)"

definition DeserializeCompositeField_TaskParam ::
  "'s DeserializerMixIn \<Rightarrow> 's \<Rightarrow> error + (TaskParam \<times> 's)" where
  "DeserializeCompositeField_TaskParam mixin s =
     and_then (DeserializeCompositeField mixin s)
       (\<lambda>(x, s'). case x of TaskParamComposite v \<Rightarrow> Inr (v, s') | _ \<Rightarrow> Inl LayoutMismatch)"

definition DeserializeCompositeField_ModelParam ::
  "'s DeserializerMixIn \<Rightarrow> 's \<Rightarrow> error + (ModelParam \<times> 's)" where
  "DeserializeCompositeField_ModelParam mixin s =
     and_then (DeserializeCompositeField mixin s)
       (\<lambda>(x, s'). case x of ModelParamComposite v \<Rightarrow> Inr (v, s') | _ \<Rightarrow> Inl LayoutMismatch)"

text \<open>
  The loop \<^verbatim>\<open>for (std::int32_t i = 0; i < n; ++i) mixin_->SkipOptionalField()\<close>, by the
  number of iterations left: \<open>nat n\<close> of them, none when \<open>n\<close> is negative.
\<close>

fun SkipOptionalFields :: "'s DeserializerMixIn \<Rightarrow> nat \<Rightarrow> 's \<Rightarrow> error + 's" where
  "SkipOptionalFields mixin 0 s = Inr s"
| "SkipOptionalFields mixin (Suc k) s =
     and_then (SkipOptionalField mixin s) (SkipOptionalFields mixin k)"

text \<open>
  \<open>DeserializeHeaderAndCreateModelV3\<close>. The legacy task type and the two legacy
  parameter composites are read into local variables (\<open>task_type\<close>, \<open>task_param\<close>,
  \<open>model_param\<close>) that nothing reads afterwards.
\<close>

definition DeserializeHeaderAndCreateModelV3 ::
  "'n env \<Rightarrow> 's DeserializerMixIn \<Rightarrow> int \<Rightarrow> int \<Rightarrow> int \<Rightarrow> 's \<Rightarrow> error + ('n Model \<times> 's)" where
  "DeserializeHeaderAndCreateModelV3 env mixin major_ver minor_ver patch_ver s0 =
     and_then (DeserializePrimitiveField_TypeInfo mixin s0) (\<lambda>(threshold_type, s).
     and_then (DeserializePrimitiveField_TypeInfo mixin s) (\<lambda>(leaf_output_type, s).
     and_then (Create env threshold_type leaf_output_type) (\<lambda>model.
     let model = model\<lparr>major_ver_' := major_ver, minor_ver_' := minor_ver,
                        patch_ver_' := patch_ver\<rparr> in
     and_then (DeserializePrimitiveField_uint64 mixin s) (\<lambda>(v, s).
     let model = model\<lparr>num_tree_' := v\<rparr> in
     and_then (DeserializePrimitiveField_int32 mixin s) (\<lambda>(v, s).
     let model = model\<lparr>num_feature := v\<rparr> in
     and_then (DeserializePrimitiveField_TaskTypeV3 mixin s) (\<lambda>(task_type, s).
     and_then (DeserializePrimitiveField_bool mixin s) (\<lambda>(v, s).
     let model = model\<lparr>average_tree_output := v\<rparr> in
     and_then (DeserializeCompositeField_TaskParam mixin s) (\<lambda>(task_param, s).
     and_then (DeserializeCompositeField_ModelParam mixin s) (\<lambda>(model_param, s).
     and_then (DeserializePrimitiveField_int32 mixin s) (\<lambda>(v, s).
     let model = model\<lparr>num_opt_field_per_model_' := v\<rparr> in
     and_then (SkipOptionalFields mixin (nat (num_opt_field_per_model_' model)) s) (\<lambda>s.
     Inr (model, s))))))))))))"

text \<open>
  The part of \<open>DeserializeHeaderAndCreateModel\<close> after the version checks (from the
  read of the numeric type pair to the end of the function): the header of the current
  format.
\<close>

definition DeserializeHeaderAndCreateModel_current ::
  "'n env \<Rightarrow> 's DeserializerMixIn \<Rightarrow> int \<Rightarrow> int \<Rightarrow> int \<Rightarrow> 's \<Rightarrow> error + ('n Model \<times> 's)" where
  "DeserializeHeaderAndCreateModel_current env mixin major_ver minor_ver patch_ver s0 =
     and_then (DeserializePrimitiveField_TypeInfo mixin s0) (\<lambda>(threshold_type, s).
     and_then (DeserializePrimitiveField_TypeInfo mixin s) (\<lambda>(leaf_output_type, s).
     and_then (Create env threshold_type leaf_output_type) (\<lambda>model.
     let model = model\<lparr>major_ver_' := major_ver, minor_ver_' := minor_ver,
                        patch_ver_' := patch_ver\<rparr> in
     and_then (DeserializePrimitiveField_uint64 mixin s) (\<lambda>(v, s).
     let model = model\<lparr>num_tree_' := v\<rparr> in
     and_then (DeserializePrimitiveField_int32 mixin s) (\<lambda>(v, s).
     let model = model\<lparr>num_feature := v\<rparr> in
     and_then (DeserializePrimitiveField_TaskType mixin s) (\<lambda>(v, s).
     let model = model\<lparr>task_type := v\<rparr> in
     and_then (DeserializePrimitiveField_bool mixin s) (\<lambda>(v, s).
     let model = model\<lparr>average_tree_output := v\<rparr> in
     and_then (DeserializeCompositeField_TaskParam mixin s) (\<lambda>(v, s).
     let model = model\<lparr>task_param := v\<rparr> in
     and_then (DeserializeCompositeField_ModelParam mixin s) (\<lambda>(v, s).
     let model = model\<lparr>param := v\<rparr>;
         use_opt_field = (major_ver \<ge> 3) in
     if use_opt_field then
       and_then (DeserializePrimitiveField_int32 mixin s) (\<lambda>(v, s).
       let model = model\<lparr>num_opt_field_per_model_' := v\<rparr> in
       and_then (SkipOptionalFields mixin (nat (num_opt_field_per_model_' model)) s) (\<lambda>s.
       Inr (model, s)))
     else Inl OnlyFormatV3OrLater)))))))))"

text \<open>
  \<open>DeserializeHeaderAndCreateModel\<close>: the version triple is read first; the result is the
  warnings logged and the outcome. The third branch of the version checks only logs, and
  control goes on to the header of the current format.
\<close>

definition DeserializeHeaderAndCreateModel ::
  "'n env \<Rightarrow> 's DeserializerMixIn \<Rightarrow> 's \<Rightarrow> warning list \<times> (error + ('n Model \<times> 's))" where
  "DeserializeHeaderAndCreateModel env mixin s0 =
     (case and_then (DeserializePrimitiveField_int32 mixin s0) (\<lambda>(major_ver, s).
           and_then (DeserializePrimitiveField_int32 mixin s) (\<lambda>(minor_ver, s).
           and_then (DeserializePrimitiveField_int32 mixin s) (\<lambda>(patch_ver, s).
           Inr (major_ver, minor_ver, patch_ver, s)))) of
        Inl e \<Rightarrow> ([], Inl e)
      | Inr (major_ver, minor_ver, patch_ver, s) \<Rightarrow>
          if major_ver \<noteq> TREELITE_VER_MAJOR env \<and> \<not> (major_ver = 3 \<and> minor_ver = 9)
          then ([], Inl (DifferentMajorVersion major_ver minor_ver patch_ver))
          else if major_ver = 3 \<and> minor_ver = 9
          then ([OriginatedFromV39],
                DeserializeHeaderAndCreateModelV3 env mixin major_ver minor_ver patch_ver s)
          else
            let log = (if major_ver = TREELITE_VER_MAJOR env \<and> minor_ver > TREELITE_VER_MINOR env
                       then [OriginatedFromNewerVersion major_ver minor_ver patch_ver]
                       else [])
            in (log,
                DeserializeHeaderAndCreateModel_current env mixin
                  major_ver minor_ver patch_ver s))"

text \<open>
  \<open>DeserializeTree\<close>: the body of the source is empty but for the comment
  \<^verbatim>\<open>TODO(hcho3): Implement v4 protocol\<close>; nothing is read and the tree is left as it is.
\<close>

definition DeserializeTree ::
  "'s DeserializerMixIn \<Rightarrow> 'n Tree \<Rightarrow> 's \<Rightarrow> error + ('n Tree \<times> 's)" where
  "DeserializeTree mixin tree s = Inr (tree, s)"

text \<open>
  \<open>DeserializeTreeV3\<close>: the node array is read into the local \<open>nodes\<close>, whose length is
  checked; the source stores it nowhere (\<^verbatim>\<open>TODO(hcho3): Convert NodeV3 to Node\<close>).
\<close>

definition DeserializeTreeV3 ::
  "'s DeserializerMixIn \<Rightarrow> 'n Tree \<Rightarrow> 's \<Rightarrow> error + ('n Tree \<times> 's)" where
  "DeserializeTreeV3 mixin tree0 s0 =
     and_then (DeserializePrimitiveField_int32 mixin s0) (\<lambda>(v, s).
     let tree = tree0\<lparr>num_nodes := v\<rparr> in
     and_then (DeserializePrimitiveField_bool mixin s) (\<lambda>(v, s).
     let tree = tree\<lparr>has_categorical_split_' := v\<rparr> in
     and_then (DeserializeCompositeArray mixin s) (\<lambda>(nodes, s).
     if size_t_of_int32 (num_nodes tree) \<noteq> length nodes then Inl CouldNotLoadNodes
     else
     and_then (DeserializePrimitiveArray mixin s) (\<lambda>(v, s).
     let tree = tree\<lparr>leaf_vector_' := v\<rparr> in
     and_then (DeserializePrimitiveArray mixin s) (\<lambda>(v, s).
     let tree = tree\<lparr>leaf_vector_begin_' := v\<rparr> in
     and_then (DeserializePrimitiveArray mixin s) (\<lambda>(v, s).
     let tree = tree\<lparr>leaf_vector_end_' := v\<rparr> in
     and_then (DeserializePrimitiveArray mixin s) (\<lambda>(v, s).
     let tree = tree\<lparr>matching_categories_' := v\<rparr> in
     and_then (DeserializePrimitiveArray mixin s) (\<lambda>(v, s).
     let tree = tree\<lparr>matching_categories_offset_' := v\<rparr> in
     and_then (DeserializePrimitiveField_int32 mixin s) (\<lambda>(v, s).
     let tree = tree\<lparr>num_opt_field_per_tree_' := v\<rparr> in
     and_then (SkipOptionalFields mixin (nat (num_opt_field_per_tree_' tree)) s) (\<lambda>s.
     and_then (DeserializePrimitiveField_int32 mixin s) (\<lambda>(v, s).
     let tree = tree\<lparr>num_opt_field_per_node_' := v\<rparr> in
     and_then (SkipOptionalFields mixin (nat (num_opt_field_per_node_' tree)) s) (\<lambda>s.
     Inr (tree, s)))))))))))))"

text \<open>
  The loops of \<open>DeserializeTrees\<close> and \<open>DeserializeTreesV3\<close>, by the number of iterations
  left: \<^verbatim>\<open>emplace_back()\<close> appends a default-constructed tree, which is then filled in.
\<close>

fun DeserializeTrees_loop ::
  "'n env \<Rightarrow> 's DeserializerMixIn \<Rightarrow> nat \<Rightarrow> 'n Tree list \<Rightarrow> 's \<Rightarrow> error + ('n Tree list \<times> 's)" where
  "DeserializeTrees_loop env mixin 0 ts s = Inr (ts, s)"
| "DeserializeTrees_loop env mixin (Suc k) ts s =
     and_then (DeserializeTree mixin (Tree_ctor env) s)
       (\<lambda>(tree, s). DeserializeTrees_loop env mixin k (ts @ [tree]) s)"

fun DeserializeTreesV3_loop ::
  "'n env \<Rightarrow> 's DeserializerMixIn \<Rightarrow> nat \<Rightarrow> 'n Tree list \<Rightarrow> 's \<Rightarrow> error + ('n Tree list \<times> 's)" where
  "DeserializeTreesV3_loop env mixin 0 ts s = Inr (ts, s)"
| "DeserializeTreesV3_loop env mixin (Suc k) ts s =
     and_then (DeserializeTreeV3 mixin (Tree_ctor env) s)
       (\<lambda>(tree, s). DeserializeTreesV3_loop env mixin k (ts @ [tree]) s)"

definition DeserializeTrees ::
  "'n env \<Rightarrow> 's DeserializerMixIn \<Rightarrow> 'n Model \<Rightarrow> 's \<Rightarrow> error + ('n Model \<times> 's)" where
  "DeserializeTrees env mixin model s0 =
     and_then (DeserializeTrees_loop env mixin (num_tree_' model) [] s0)
       (\<lambda>(ts, s). Inr (model\<lparr>variant_' := (variant_' model)\<lparr>trees := ts\<rparr>\<rparr>, s))"

definition DeserializeTreesV3 ::
  "'n env \<Rightarrow> 's DeserializerMixIn \<Rightarrow> 'n Model \<Rightarrow> 's \<Rightarrow> error + ('n Model \<times> 's)" where
  "DeserializeTreesV3 env mixin model s0 =
     and_then (DeserializeTreesV3_loop env mixin (num_tree_' model) [] s0)
       (\<lambda>(ts, s). Inr (model\<lparr>variant_' := (variant_' model)\<lparr>trees := ts\<rparr>\<rparr>, s))"

subsection \<open>The two transports\<close>

text \<open>
  Modelled from the spec: the mixins of \<^verbatim>\<open>treelite/detail/serializer_mixins.h\<close> are not part
  of the source at hand. The design gives two interchangeable backends. On the
  buffer-frame backend each write produces exactly one length-tagged block: a frame with
  a descriptor, an item count and the items. On the byte-stream backend a write produces
  the raw content in a fixed order with no frame boundary, an array being prefixed by its
  length. The content of a scalar, of a composite or of an array element is kept as the
  value itself (a cell), not as its bytes. Skipping consumes one field's worth of data
  without building a value: one frame, or one length-prefixed run of cells.
\<close>

text \<open>
  Modelled from the spec: the content of one scalar, one composite, one node or one array
  element, as either transport carries it.
\<close>

datatype 'n cell =
    ScalarCell scalar
  | CompositeCell composite
  | NodeCell 'n
  | NodeV3Cell NodeV3
  | ElemCell nat

text \<open>
  Modelled from the spec: a frame of the buffer-frame transport, a length-tagged block:
  descriptor, item count, items.
\<close>

record 'n PyBufferFrame =
  format :: string
  nitem :: nat
  buf :: "'n cell list"

text \<open>
  Modelled from the spec: the descriptors of the primitive types, in the notation of the
  composite descriptors that \<open>SerializeHeader\<close> passes.
\<close>

fun scalar_format :: "scalar \<Rightarrow> string" where
  "scalar_format (Int32 v) = ''=l''"
| "scalar_format (UInt64 v) = ''=Q''"
| "scalar_format (Bool v) = ''=?''"
| "scalar_format (TypeInfoField v) = ''=B''"
| "scalar_format (TaskTypeField v) = ''=B''"
| "scalar_format (TaskTypeV3Field v) = ''=B''"

fun elem_format :: "elem_type \<Rightarrow> string" where
  "elem_format (LeafOutputElem kFloat32) = ''=f''"
| "elem_format (LeafOutputElem kFloat64) = ''=d''"
| "elem_format (LeafOutputElem kUInt32) = ''=L''"
| "elem_format (LeafOutputElem kInvalid) = ''''"
| "elem_format SizeTElem = ''=Q''"
| "elem_format UInt32Elem = ''=L''"

text \<open>
  Modelled from the spec: each write on the buffer-frame transport produces exactly one
  frame.
\<close>

fun frame_of :: "'n item \<Rightarrow> 'n PyBufferFrame" where
  "frame_of (PrimitiveField x) =
     \<lparr>format = scalar_format x, nitem = 1, buf = [ScalarCell x]\<rparr>"
| "frame_of (CompositeField x fmt) =
     \<lparr>format = fmt, nitem = 1, buf = [CompositeCell x]\<rparr>"
| "frame_of (CompositeArray xs fmt) =
     \<lparr>format = fmt, nitem = length xs, buf = map NodeCell xs\<rparr>"
| "frame_of (PrimitiveArray ty xs) =
     \<lparr>format = elem_format ty, nitem = length xs, buf = map ElemCell xs\<rparr>"

text \<open>
  Modelled from the spec: \<^verbatim>\<open>PyBufferSerializerMixIn\<close>, which appends one frame per write.
\<close>

definition PyBufferSerializerMixIn :: "('n, 'n PyBufferFrame list) SerializerMixIn" where
  "PyBufferSerializerMixIn x frames = frames @ [frame_of x]"

text \<open>
  Modelled from the spec: what one write puts on the byte stream: the content alone, an
  array behind its length.
\<close>

fun cells_of :: "'n item \<Rightarrow> 'n cell list" where
  "cells_of (PrimitiveField x) = [ScalarCell x]"
| "cells_of (CompositeField x fmt) = [CompositeCell x]"
| "cells_of (CompositeArray xs fmt) = ScalarCell (UInt64 (length xs)) # map NodeCell xs"
| "cells_of (PrimitiveArray ty xs) = ScalarCell (UInt64 (length xs)) # map ElemCell xs"

text \<open>
  Modelled from the spec: \<^verbatim>\<open>StreamSerializerMixIn\<close>, which appends the content of each write
  to the stream.
\<close>

definition StreamSerializerMixIn :: "('n, 'n cell list) SerializerMixIn" where
  "StreamSerializerMixIn x os = os @ cells_of x"

text \<open>
  Modelled from the spec: reading a run of cells as array elements, or as legacy nodes; a
  cell of another kind is a layout mismatch.
\<close>

fun elems_of_cells :: "'n cell list \<Rightarrow> error + nat list" where
  "elems_of_cells [] = Inr []"
| "elems_of_cells (ElemCell x # cs) = and_then (elems_of_cells cs) (\<lambda>xs. Inr (x # xs))"
| "elems_of_cells (c # cs) = Inl LayoutMismatch"

fun nodesV3_of_cells :: "'n cell list \<Rightarrow> error + NodeV3 list" where
  "nodesV3_of_cells [] = Inr []"
| "nodesV3_of_cells (NodeV3Cell x # cs) =
     and_then (nodesV3_of_cells cs) (\<lambda>xs. Inr (x # xs))"
| "nodesV3_of_cells (c # cs) = Inl LayoutMismatch"

text \<open>
  Modelled from the spec: the reads of \<^verbatim>\<open>PyBufferDeserializerMixIn\<close>. Each read takes the
  next frame, whose item count and items must fit what is read; skipping drops one frame.
\<close>

fun PyBuffer_read_scalar :: "'n PyBufferFrame list \<Rightarrow> error + (scalar \<times> 'n PyBufferFrame list)" where
  "PyBuffer_read_scalar [] = Inl EndOfInput"
| "PyBuffer_read_scalar (f # frames) =
     (if nitem f \<noteq> 1 then Inl LayoutMismatch
      else case buf f of [ScalarCell x] \<Rightarrow> Inr (x, frames) | _ \<Rightarrow> Inl LayoutMismatch)"

fun PyBuffer_read_composite ::
  "'n PyBufferFrame list \<Rightarrow> error + (composite \<times> 'n PyBufferFrame list)" where
  "PyBuffer_read_composite [] = Inl EndOfInput"
| "PyBuffer_read_composite (f # frames) =
     (if nitem f \<noteq> 1 then Inl LayoutMismatch
      else case buf f of [CompositeCell x] \<Rightarrow> Inr (x, frames) | _ \<Rightarrow> Inl LayoutMismatch)"

fun PyBuffer_read_composite_array ::
  "'n PyBufferFrame list \<Rightarrow> error + (NodeV3 list \<times> 'n PyBufferFrame list)" where
  "PyBuffer_read_composite_array [] = Inl EndOfInput"
| "PyBuffer_read_composite_array (f # frames) =
     (if nitem f \<noteq> length (buf f) then Inl LayoutMismatch
      else and_then (nodesV3_of_cells (buf f)) (\<lambda>xs. Inr (xs, frames)))"

fun PyBuffer_read_primitive_array ::
  "'n PyBufferFrame list \<Rightarrow> error + (nat list \<times> 'n PyBufferFrame list)" where
  "PyBuffer_read_primitive_array [] = Inl EndOfInput"
| "PyBuffer_read_primitive_array (f # frames) =
     (if nitem f \<noteq> length (buf f) then Inl LayoutMismatch
      else and_then (elems_of_cells (buf f)) (\<lambda>xs. Inr (xs, frames)))"

fun PyBuffer_skip :: "'n PyBufferFrame list \<Rightarrow> error + 'n PyBufferFrame list" where
  "PyBuffer_skip [] = Inl EndOfInput"
| "PyBuffer_skip (f # frames) = Inr frames"

text \<open>
  Modelled from the spec: \<^verbatim>\<open>PyBufferDeserializerMixIn\<close>.
\<close>

definition PyBufferDeserializerMixIn :: "'n PyBufferFrame list DeserializerMixIn" where
  "PyBufferDeserializerMixIn =
     \<lparr>DeserializePrimitiveField = PyBuffer_read_scalar,
      DeserializeCompositeField = PyBuffer_read_composite,
      DeserializeCompositeArray = PyBuffer_read_composite_array,
      DeserializePrimitiveArray = PyBuffer_read_primitive_array,
      SkipOptionalField = PyBuffer_skip\<rparr>"

text \<open>
  Modelled from the spec: the reads of \<^verbatim>\<open>StreamDeserializerMixIn\<close>. A scalar or a composite
  is the next cell; an array is its length and then that many cells; skipping reads a
  length and drops that many cells.
\<close>

fun Stream_read_scalar :: "'n cell list \<Rightarrow> error + (scalar \<times> 'n cell list)" where
  "Stream_read_scalar [] = Inl EndOfInput"
| "Stream_read_scalar (ScalarCell x # is) = Inr (x, is)"
| "Stream_read_scalar (c # is) = Inl LayoutMismatch"

fun Stream_read_composite :: "'n cell list \<Rightarrow> error + (composite \<times> 'n cell list)" where
  "Stream_read_composite [] = Inl EndOfInput"
| "Stream_read_composite (CompositeCell x # is) = Inr (x, is)"
| "Stream_read_composite (c # is) = Inl LayoutMismatch"

text \<open>
  Modelled from the spec: the length prefix of an array, then that many cells.
\<close>

definition Stream_read_run :: "'n cell list \<Rightarrow> error + ('n cell list \<times> 'n cell list)" where
  "Stream_read_run is =
     and_then (Stream_read_scalar is)
       (\<lambda>(x, is'). case x of
            UInt64 n \<Rightarrow> if length is' < n then Inl EndOfInput
                        else Inr (take n is', drop n is')
          | _ \<Rightarrow> Inl LayoutMismatch)"

definition Stream_read_composite_array ::
  "'n cell list \<Rightarrow> error + (NodeV3 list \<times> 'n cell list)" where
  "Stream_read_composite_array is =
     and_then (Stream_read_run is)
       (\<lambda>(cs, is'). and_then (nodesV3_of_cells cs) (\<lambda>xs. Inr (xs, is')))"

definition Stream_read_primitive_array ::
  "'n cell list \<Rightarrow> error + (nat list \<times> 'n cell list)" where
  "Stream_read_primitive_array is =
     and_then (Stream_read_run is)
       (\<lambda>(cs, is'). and_then (elems_of_cells cs) (\<lambda>xs. Inr (xs, is')))"

definition Stream_skip :: "'n cell list \<Rightarrow> error + 'n cell list" where
  "Stream_skip is = and_then (Stream_read_run is) (\<lambda>(cs, is'). Inr is')"

text \<open>
  Modelled from the spec: \<^verbatim>\<open>StreamDeserializerMixIn\<close>.
\<close>

definition StreamDeserializerMixIn :: "'n cell list DeserializerMixIn" where
  "StreamDeserializerMixIn =
     \<lparr>DeserializePrimitiveField = Stream_read_scalar,
      DeserializeCompositeField = Stream_read_composite,
      DeserializeCompositeArray = Stream_read_composite_array,
      DeserializePrimitiveArray = Stream_read_primitive_array,
      SkipOptionalField = Stream_skip\<rparr>"

subsection \<open>Entry points\<close>

text \<open>
  \<open>Model::GetPyBuffer\<close> returns the frames; a throw loses them. The model is serialized
  in place, so the model as it is left is part of the result.
\<close>

definition GetPyBuffer ::
  "'n env \<Rightarrow> 'n Model \<Rightarrow> (error \<times> 'n Model) + ('n Model \<times> 'n PyBufferFrame list)" where
  "GetPyBuffer env model =
     (case Serialize env PyBufferSerializerMixIn model [] of
        Inl (e, model', frames) \<Rightarrow> Inl (e, model')
      | Inr (model', frames) \<Rightarrow> Inr (model', frames))"

definition CreateFromPyBuffer ::
  "'n env \<Rightarrow> 'n PyBufferFrame list \<Rightarrow> warning list \<times> (error + 'n Model)" where
  "CreateFromPyBuffer env frames =
     (case DeserializeHeaderAndCreateModel env PyBufferDeserializerMixIn frames of
        (log, r) \<Rightarrow>
          (log, and_then r (\<lambda>(model, s).
                and_then (DeserializeTrees env PyBufferDeserializerMixIn model s)
                  (\<lambda>(model, s). Inr model))))"

text \<open>\<open>Model::SerializeToStream\<close> writes to a stream that outlives a throw.\<close>

definition SerializeToStream ::
  "'n env \<Rightarrow> 'n Model \<Rightarrow> 'n cell list
     \<Rightarrow> (error \<times> 'n Model \<times> 'n cell list) + ('n Model \<times> 'n cell list)" where
  "SerializeToStream env model os = Serialize env StreamSerializerMixIn model os"

definition DeserializeFromStream ::
  "'n env \<Rightarrow> 'n cell list \<Rightarrow> warning list \<times> (error + 'n Model)" where
  "DeserializeFromStream env is =
     (case DeserializeHeaderAndCreateModel env StreamDeserializerMixIn is of
        (log, r) \<Rightarrow>
          (log, and_then r (\<lambda>(model, s).
                if major_ver_' model = 3
                then and_then (DeserializeTreesV3 env StreamDeserializerMixIn model s)
                       (\<lambda>(model, s). Inr model)
                else and_then (DeserializeTrees env StreamDeserializerMixIn model s)
                       (\<lambda>(model, s). Inr model))))"

subsection \<open>The artifact layout as the design states it\<close>

text \<open>
  The layout of the design document, field by field, for comparison with what the
  serializer writes: the header, then one record per tree, in order.
\<close>

definition header_layout :: "'n env \<Rightarrow> 'n Model \<Rightarrow> 'n item list" where
  "header_layout env model =
     [PrimitiveField (Int32 (TREELITE_VER_MAJOR env)),
      PrimitiveField (Int32 (TREELITE_VER_MINOR env)),
      PrimitiveField (Int32 (TREELITE_VER_PATCH env)),
      PrimitiveField (TypeInfoField (GetThresholdType model)),
      PrimitiveField (TypeInfoField (GetLeafOutputType model)),
      PrimitiveField (UInt64 (GetNumTree model)),
      PrimitiveField (Int32 (num_feature model)),
      PrimitiveField (TaskTypeField (task_type model)),
      PrimitiveField (Bool (average_tree_output model)),
      CompositeField (TaskParamComposite (task_param model)) ''T{=B=?xx=I=I}'',
      CompositeField (ModelParamComposite (param model))
        (''T{'' @ TREELITE_MAX_PRED_TRANSFORM_LENGTH env @ ''s=f=f=f}''),
      PrimitiveField (Int32 0)]"

definition tree_layout :: "'n env \<Rightarrow> TypeInfo \<times> TypeInfo \<Rightarrow> 'n Tree \<Rightarrow> 'n item list" where
  "tree_layout env types tree =
     [PrimitiveField (Int32 (num_nodes tree)),
      PrimitiveField (Bool (has_categorical_split_' tree)),
      CompositeArray (nodes_' tree) (GetFormatStringForNode env (fst types) (snd types)),
      PrimitiveArray (LeafOutputElem (snd types)) (leaf_vector_' tree),
      PrimitiveArray SizeTElem (leaf_vector_begin_' tree),
      PrimitiveArray SizeTElem (leaf_vector_end_' tree),
      PrimitiveArray UInt32Elem (matching_categories_' tree),
      PrimitiveArray SizeTElem (matching_categories_offset_' tree),
      PrimitiveField (Int32 0),
      PrimitiveField (Int32 0)]"

definition artifact_layout :: "'n env \<Rightarrow> 'n Model \<Rightarrow> 'n item list" where
  "artifact_layout env model =
     header_layout env model
     @ concat (map (tree_layout env (GetThresholdType model, GetLeafOutputType model))
                 (trees (variant_' model)))"

text \<open>Writing a list of units through a mixin, first to last.\<close>

definition write_all :: "('n, 'o) SerializerMixIn \<Rightarrow> 'n item list \<Rightarrow> 'o \<Rightarrow> 'o" where
  "write_all mixin xs out = foldl (\<lambda>acc x. mixin x acc) out xs"

text \<open>The mixin that records the units it is given, in the order of the calls.\<close>

definition RecordingMixIn :: "('n, 'n item list) SerializerMixIn" where
  "RecordingMixIn x acc = acc @ [x]"

text \<open>What a run of the serializer leaves behind: the outcome with the output, and the model.\<close>

definition serialized_output ::
  "(error \<times> 'n Model \<times> 'o) + ('n Model \<times> 'o) \<Rightarrow> error option \<times> 'o" where
  "serialized_output r =
     (case r of Inl (e, model, out) \<Rightarrow> (Some e, out) | Inr (model, out) \<Rightarrow> (None, out))"

definition serialized_model :: "(error \<times> 'n Model \<times> 'o) + ('n Model \<times> 'o) \<Rightarrow> 'n Model" where
  "serialized_model r = (case r of Inl (e, model, out) \<Rightarrow> model | Inr (model, out) \<Rightarrow> model)"

text \<open>The two extension-slot counts that \<open>SerializeTree\<close> resets.\<close>

definition reset_opt_fields :: "'n Tree \<Rightarrow> 'n Tree" where
  "reset_opt_fields tree = tree\<lparr>num_opt_field_per_tree_' := 0, num_opt_field_per_node_' := 0\<rparr>"

definition node_count_ok :: "'n Tree \<Rightarrow> bool" where
  "node_count_ok tree = (size_t_of_int32 (num_nodes tree) = length (nodes_' tree))"

text \<open>
  The model as \<open>SerializeHeader\<close> stamps it, holding the trees \<open>ts\<close>; and the trees that
  the loop of \<open>SerializeTrees\<close> leaves behind.
\<close>

definition header_stamped :: "'n env \<Rightarrow> 'n Model \<Rightarrow> 'n Tree list \<Rightarrow> 'n Model" where
  "header_stamped env model ts =
     model\<lparr>major_ver_' := TREELITE_VER_MAJOR env, minor_ver_' := TREELITE_VER_MINOR env,
           patch_ver_' := TREELITE_VER_PATCH env,
           threshold_type_' := GetThresholdType model,
           leaf_output_type_' := GetLeafOutputType model,
           num_tree_' := GetNumTree model, num_opt_field_per_model_' := 0,
           variant_' := (variant_' model)\<lparr>trees := ts\<rparr>\<rparr>"

definition loop_trees ::
  "(error \<times> 'n Tree list \<times> 'o) + ('n Tree list \<times> 'o) \<Rightarrow> 'n Tree list" where
  "loop_trees r = (case r of Inl (e, ts, out) \<Rightarrow> ts | Inr (ts, out) \<Rightarrow> ts)"

subsection \<open>A concrete instance\<close>

text \<open>
  An instance of the parameters, for evaluating the definitions: library version 4.0.0,
  nodes laid out as \<open>NodeV3\<close>, an empty default tree, and a \<open>Create\<close> that accepts the
  pairs (float32, float32) and (float64, float64) and fills a fresh model with the default
  member values of the v3 parameter records.
\<close>

definition example_Tree :: "NodeV3 Tree" where
  "example_Tree =
     \<lparr>num_nodes = 0, has_categorical_split_' = False, nodes_' = [], leaf_vector_' = [],
      leaf_vector_begin_' = [], leaf_vector_end_' = [], matching_categories_' = [],
      matching_categories_offset_' = [], num_opt_field_per_tree_' = 0,
      num_opt_field_per_node_' = 0\<rparr>"

definition example_TaskParam :: TaskParam where
  "example_TaskParam =
     \<lparr>output_type = kFloat, grove_per_class = False, num_class = 1, leaf_vector_size = 1\<rparr>"

definition example_ModelParam :: ModelParam where
  "example_ModelParam =
     \<lparr>pred_transform = ''identity'', sigmoid_alpha = 1065353216, ratio_c = 1065353216,
      global_bias = 0\<rparr>"

definition example_Create :: "TypeInfo \<Rightarrow> TypeInfo \<Rightarrow> error + NodeV3 Model" where
  "example_Create threshold_type leaf_output_type =
     (if threshold_type = leaf_output_type
         \<and> (threshold_type = kFloat32 \<or> threshold_type = kFloat64)
      then Inr \<lparr>major_ver_' = 4, minor_ver_' = 0, patch_ver_' = 0,
                threshold_type_' = threshold_type, leaf_output_type_' = leaf_output_type,
                num_tree_' = 0, num_feature = 0, task_type = kBinaryClf,
                average_tree_output = False, task_param = example_TaskParam,
                param = example_ModelParam, num_opt_field_per_model_' = 0,
                variant_' = \<lparr>preset_threshold_type = threshold_type,
                             preset_leaf_output_type = leaf_output_type, trees = []\<rparr>\<rparr>
      else Inl UnsupportedTypePair)"

definition example_env :: "NodeV3 env" where
  "example_env =
     \<lparr>TREELITE_VER_MAJOR = 4, TREELITE_VER_MINOR = 0, TREELITE_VER_PATCH = 0,
      TREELITE_MAX_PRED_TRANSFORM_LENGTH = ''256'',
      Create = example_Create,
      GetFormatStringForNode = (\<lambda>threshold_type leaf_output_type. ''T{=l=l=L=f=Q=d=d=b=b=?=?=?=?xx}''),
      Tree_ctor = example_Tree\<rparr>"

text \<open>
  The example of the design document: type pair (float32, float32), 10 features, a
  regressor, one tree of three nodes (a split and two leaves).
\<close>

definition example_leaf :: "nat \<Rightarrow> NodeV3" where
  "example_leaf v =
     \<lparr>cleft_' = - 1, cright_' = - 1, sindex_' = 0, info_' = v, data_count_' = 0,
      sum_hess_' = 0, gain_' = 0, split_type_' = 0, cmp_' = 0, data_count_present_' = False,
      sum_hess_present_' = False, gain_present_' = False,
      categories_list_right_child_' = False\<rparr>"

definition example_split :: NodeV3 where
  "example_split =
     \<lparr>cleft_' = 1, cright_' = 2, sindex_' = 0, info_' = 1056964608, data_count_' = 0,
      sum_hess_' = 0, gain_' = 0, split_type_' = 1, cmp_' = 2, data_count_present_' = False,
      sum_hess_present_' = False, gain_present_' = False,
      categories_list_right_child_' = False\<rparr>"

definition example_tree3 :: "NodeV3 Tree" where
  "example_tree3 =
     example_Tree\<lparr>num_nodes := 3,
                   nodes_' := [example_split, example_leaf 1065353216, example_leaf 0],
                   leaf_vector_begin_' := [0, 0, 0], leaf_vector_end_' := [0, 0, 0],
                   matching_categories_offset_' := [0, 0, 0, 0]\<rparr>"

definition example_model :: "NodeV3 Model" where
  "example_model =
     \<lparr>major_ver_' = 4, minor_ver_' = 0, patch_ver_' = 0,
      threshold_type_' = kFloat32, leaf_output_type_' = kFloat32,
      num_tree_' = 1, num_feature = 10, task_type = kRegressor,
      average_tree_output = False, task_param = example_TaskParam,
      param = example_ModelParam, num_opt_field_per_model_' = 0,
      variant_' = \<lparr>preset_threshold_type = kFloat32, preset_leaf_output_type = kFloat32,
                   trees = [example_tree3]\<rparr>\<rparr>"

text \<open>
  A legacy artifact on the byte-stream transport: version 3.9.1, the type pair
  (float32, float32), one tree, 10 features, a legacy task type and legacy parameter
  records that differ from the defaults, no model-level extension field; then the record
  of one tree of three nodes.
\<close>

definition example_v3_TaskParam :: TaskParamV3 where
  "example_v3_TaskParam =
     \<lparr>output_type = kInt, grove_per_class = True, num_class = 3, leaf_vector_size = 3\<rparr>"

definition example_v3_ModelParam :: ModelParamV3 where
  "example_v3_ModelParam =
     \<lparr>pred_transform = ''softmax'', sigmoid_alpha = 1073741824, ratio_c = 1065353216,
      global_bias = 1056964608\<rparr>"

definition example_v3_header :: "NodeV3 cell list" where
  "example_v3_header =
     [ScalarCell (TypeInfoField kFloat32), ScalarCell (TypeInfoField kFloat32),
      ScalarCell (UInt64 1),
      ScalarCell (Int32 10),
      ScalarCell (TaskTypeV3Field kMultiClfProbDistLeaf),
      ScalarCell (Bool True),
      CompositeCell (TaskParamComposite example_v3_TaskParam),
      CompositeCell (ModelParamComposite example_v3_ModelParam),
      ScalarCell (Int32 0)]"

definition example_v3_tree_record :: "NodeV3 cell list" where
  "example_v3_tree_record =
     [ScalarCell (Int32 3), ScalarCell (Bool False),
      ScalarCell (UInt64 3),
      NodeV3Cell example_split, NodeV3Cell (example_leaf 1065353216),
      NodeV3Cell (example_leaf 0),
      ScalarCell (UInt64 0),
      ScalarCell (UInt64 3), ElemCell 0, ElemCell 0, ElemCell 0,
      ScalarCell (UInt64 3), ElemCell 0, ElemCell 0, ElemCell 0,
      ScalarCell (UInt64 0),
      ScalarCell (UInt64 4), ElemCell 0, ElemCell 0, ElemCell 0, ElemCell 0,
      ScalarCell (Int32 0),
      ScalarCell (Int32 0)]"

definition example_v3_stream :: "NodeV3 cell list" where
  "example_v3_stream =
     [ScalarCell (Int32 3), ScalarCell (Int32 9), ScalarCell (Int32 1)]
     @ example_v3_header @ example_v3_tree_record"

text \<open>The model that the legacy header decoder builds from \<open>example_v3_header\<close>.\<close>

definition example_v3_model :: "NodeV3 Model" where
  "example_v3_model =
     \<lparr>major_ver_' = 3, minor_ver_' = 9, patch_ver_' = 1,
      threshold_type_' = kFloat32, leaf_output_type_' = kFloat32,
      num_tree_' = 1, num_feature = 10, task_type = kBinaryClf,
      average_tree_output = True, task_param = example_TaskParam,
      param = example_ModelParam, num_opt_field_per_model_' = 0,
      variant_' = \<lparr>preset_threshold_type = kFloat32, preset_leaf_output_type = kFloat32,
                   trees = []\<rparr>\<rparr>"

text \<open>
  What the header decoder of the current format makes of the header that
  \<open>SerializeHeader\<close> writes for \<open>model\<close>, starting from the model \<open>fresh\<close> that \<open>Create\<close>
  returns; and the same model holding the default-constructed trees that
  \<open>DeserializeTrees\<close> appends.
\<close>

definition decoded_header :: "'n env \<Rightarrow> 'n Model \<Rightarrow> 'n Model \<Rightarrow> 'n Model" where
  "decoded_header env model fresh =
     fresh\<lparr>major_ver_' := TREELITE_VER_MAJOR env, minor_ver_' := TREELITE_VER_MINOR env,
           patch_ver_' := TREELITE_VER_PATCH env, num_tree_' := GetNumTree model,
           num_feature := num_feature model, task_type := task_type model,
           average_tree_output := average_tree_output model,
           task_param := task_param model, param := param model,
           num_opt_field_per_model_' := 0\<rparr>"

definition decoded_model :: "'n env \<Rightarrow> 'n Model \<Rightarrow> 'n Model \<Rightarrow> 'n Model" where
  "decoded_model env model fresh =
     (decoded_header env model fresh)
       \<lparr>variant_' := (variant_' fresh)
          \<lparr>trees := replicate (GetNumTree model) (Tree_ctor env)\<rparr>\<rparr>"

text \<open>The tree that \<open>DeserializeTreeV3\<close> makes of \<open>example_v3_tree_record\<close>.\<close>

definition example_v3_decoded_tree :: "NodeV3 Tree" where
  "example_v3_decoded_tree =
     example_Tree\<lparr>num_nodes := 3,
                   leaf_vector_begin_' := [0, 0, 0], leaf_vector_end_' := [0, 0, 0],
                   matching_categories_offset_' := [0, 0, 0, 0]\<rparr>"

text \<open>
  An artifact of a later minor version (4.1.0) on the buffer-frame transport, with
  extension fields: two model-level ones after the header, and one per-tree one in the
  record of its tree.
\<close>

definition example_future_header :: "NodeV3 PyBufferFrame list" where
  "example_future_header =
     map frame_of
       [PrimitiveField (Int32 4), PrimitiveField (Int32 1), PrimitiveField (Int32 0),
        PrimitiveField (TypeInfoField kFloat32), PrimitiveField (TypeInfoField kFloat32),
        PrimitiveField (UInt64 1),
        PrimitiveField (Int32 10),
        PrimitiveField (TaskTypeField kRegressor),
        PrimitiveField (Bool False),
        CompositeField (TaskParamComposite example_TaskParam) ''T{=B=?xx=I=I}'',
        CompositeField (ModelParamComposite example_ModelParam) ''T{256s=f=f=f}'',
        PrimitiveField (Int32 2),
        PrimitiveArray UInt32Elem [1, 2, 3],
        PrimitiveField (Bool True)]"

definition example_future_tree_record :: "NodeV3 PyBufferFrame list" where
  "example_future_tree_record =
     map frame_of
       [PrimitiveField (Int32 3),
        PrimitiveField (Bool False),
        CompositeArray [example_split, example_leaf 1065353216, example_leaf 0]
          ''T{=l=l=L=f=Q=d=d=b=b=?=?=?=?xx}'',
        PrimitiveArray (LeafOutputElem kFloat32) [],
        PrimitiveArray SizeTElem [0, 0, 0],
        PrimitiveArray SizeTElem [0, 0, 0],
        PrimitiveArray UInt32Elem [],
        PrimitiveArray SizeTElem [0, 0, 0, 0],
        PrimitiveField (Int32 1),
        PrimitiveArray UInt32Elem [7, 8],
        PrimitiveField (Int32 0)]"

definition example_future_model :: "NodeV3 Model" where
  "example_future_model =
     example_model\<lparr>minor_ver_' := 1, num_opt_field_per_model_' := 2,
                    variant_' := (variant_' example_model)\<lparr>trees := []\<rparr>\<rparr>"




section \<open>Properties\<close>

subsection \<open>Task-type codes\<close>

lemma StringToTaskType_TaskTypeToString: "StringToTaskType (TaskTypeToString t) = Inr t"
  by (cases t) (simp_all add: StringToTaskType_def)

lemma StringToTaskType_other:
  "s \<notin> {''kBinaryClf'', ''kRegressor'', ''kMultiClf'', ''kLearningToRank'',
         ''kIsolationForest''} \<Longrightarrow> StringToTaskType s = Inl (UnknownTaskType s)"
  by (simp add: StringToTaskType_def)

text \<open>
  C9. \<open>StringToTaskType\<close> maps each of the five textual codes (the strings that
  \<open>TaskTypeToString\<close> produces) to its variant, and fails fatally on every other string.
\<close>

theorem StringToTaskType_codes:
  "StringToTaskType ''kBinaryClf'' = Inr kBinaryClf
   \<and> StringToTaskType ''kRegressor'' = Inr kRegressor
   \<and> StringToTaskType ''kMultiClf'' = Inr kMultiClf
   \<and> StringToTaskType ''kLearningToRank'' = Inr kLearningToRank
   \<and> StringToTaskType ''kIsolationForest'' = Inr kIsolationForest
   \<and> (\<forall>t. StringToTaskType (TaskTypeToString t) = Inr t)
   \<and> (\<forall>s. s \<notin> {''kBinaryClf'', ''kRegressor'', ''kMultiClf'', ''kLearningToRank'',
                  ''kIsolationForest''}
          \<longrightarrow> StringToTaskType s = Inl (UnknownTaskType s))"
  by (intro conjI allI impI;
      (rule StringToTaskType_TaskTypeToString | erule StringToTaskType_other
       | simp add: StringToTaskType_def))

theorem StringToTaskType_codes_witness:
  "''kClassifier'' \<notin> {''kBinaryClf'', ''kRegressor'', ''kMultiClf'', ''kLearningToRank'',
                       ''kIsolationForest''}
   \<and> StringToTaskType ''kClassifier'' = Inl (UnknownTaskType ''kClassifier'')"
proof -
  have a: "''kClassifier'' \<notin> {''kBinaryClf'', ''kRegressor'', ''kMultiClf'',
             ''kLearningToRank'', ''kIsolationForest''}"
    by simp
  have all: "\<forall>s. s \<notin> {''kBinaryClf'', ''kRegressor'', ''kMultiClf'', ''kLearningToRank'',
                  ''kIsolationForest''}
          \<longrightarrow> StringToTaskType s = Inl (UnknownTaskType s)"
    using StringToTaskType_codes by (elim conjE)
  from a all [rule_format, OF a] show ?thesis
    by (intro conjI)
qed

subsection \<open>Serializer\<close>

lemma SerializeTree_bad:
  "\<not> node_count_ok tree \<Longrightarrow> SerializeTree env mixin types tree out = Inl (IncorrectNumberOfNodes, tree, out)"
  by (simp add: SerializeTree_def node_count_ok_def)

lemma SerializeTree_ok:
  "node_count_ok tree \<Longrightarrow> SerializeTree env mixin types tree out
     = Inr (reset_opt_fields tree, write_all mixin (tree_layout env types tree) out)"
  by (simp add: SerializeTree_def node_count_ok_def reset_opt_fields_def write_all_def
      tree_layout_def Let_def SerializePrimitiveField_def SerializeCompositeArray_def
      SerializePrimitiveArray_def)

lemma write_all_append:
  "write_all mixin (xs @ ys) out = write_all mixin ys (write_all mixin xs out)"
  by (simp add: write_all_def)

lemma SerializeTrees_loop_ok:
  "\<forall>t \<in> set ts. node_count_ok t \<Longrightarrow>
   SerializeTrees_loop env mixin types ts out
     = Inr (map reset_opt_fields ts, write_all mixin (concat (map (tree_layout env types) ts)) out)"
proof (induction ts arbitrary: out)
  case Nil
  then show ?case by (simp add: write_all_def)
next
  case (Cons t ts)
  then show ?case
    by (simp add: SerializeTree_ok write_all_append)
qed

lemma SerializeTrees_loop_bad:
  "\<forall>t \<in> set good. node_count_ok t \<Longrightarrow> \<not> node_count_ok bad \<Longrightarrow>
   SerializeTrees_loop env mixin types (good @ bad # rest) out
     = Inl (IncorrectNumberOfNodes, map reset_opt_fields good @ bad # rest,
            write_all mixin (concat (map (tree_layout env types) good)) out)"
proof (induction good arbitrary: out)
  case Nil
  then show ?case by (simp add: write_all_def SerializeTree_bad)
next
  case (Cons t ts)
  then show ?case
    by (simp add: SerializeTree_ok write_all_append)
qed

lemma SerializeHeader_eq:
  "SerializeHeader env mixin model out =
     (model\<lparr>major_ver_' := TREELITE_VER_MAJOR env, minor_ver_' := TREELITE_VER_MINOR env,
            patch_ver_' := TREELITE_VER_PATCH env,
            threshold_type_' := GetThresholdType model,
            leaf_output_type_' := GetLeafOutputType model,
            num_tree_' := GetNumTree model, num_opt_field_per_model_' := 0\<rparr>,
      write_all mixin (header_layout env model) out)"
  by (simp add: SerializeHeader_def Let_def write_all_def header_layout_def
      SerializePrimitiveField_def SerializeCompositeField_def
      GetThresholdType_def GetLeafOutputType_def GetNumTree_def)


lemma node_count_ok_reset [simp]: "node_count_ok (reset_opt_fields t) = node_count_ok t"
  by (simp add: node_count_ok_def reset_opt_fields_def)

lemma tree_layout_reset [simp]:
  "tree_layout env types (reset_opt_fields t) = tree_layout env types t"
  by (simp add: tree_layout_def reset_opt_fields_def)

lemma reset_opt_fields_idem [simp]: "reset_opt_fields (reset_opt_fields t) = reset_opt_fields t"
  by (simp add: reset_opt_fields_def)

lemma SerializeTrees_loop_cases:
  obtains (ok) "\<forall>t \<in> set ts. node_count_ok t"
  | (bad) good bad rest where "ts = good @ bad # rest" "\<forall>t \<in> set good. node_count_ok t"
      "\<not> node_count_ok bad"
proof (cases "\<exists>t \<in> set ts. \<not> node_count_ok t")
  case True
  from split_list_first_prop [OF True] obtain ys x zs
    where "ts = ys @ x # zs" "\<not> node_count_ok x" "\<forall>y \<in> set ys. \<not> \<not> node_count_ok y"
    by blast
  then show ?thesis using bad by simp
next
  case False
  then show ?thesis using ok by simp
qed

lemma SerializeTrees_loop_again:
  "SerializeTrees_loop env mixin types
     (loop_trees (SerializeTrees_loop env mixin types ts out)) out
   = SerializeTrees_loop env mixin types ts out"
proof (cases ts rule: SerializeTrees_loop_cases)
  case ok
  then have "\<forall>t \<in> set (map reset_opt_fields ts). node_count_ok t" by simp
  then show ?thesis
    by (simp add: loop_trees_def o_def SerializeTrees_loop_ok [OF ok] SerializeTrees_loop_ok)
next
  case (bad good bad rest)
  then have g: "\<forall>t \<in> set (map reset_opt_fields good). node_count_ok t" by simp
  show ?thesis
    by (simp add: loop_trees_def o_def bad(1) SerializeTrees_loop_bad [OF bad(2) bad(3)]
        SerializeTrees_loop_bad [OF g bad(3)])
qed

lemma length_loop_trees:
  "length (loop_trees (SerializeTrees_loop env mixin types ts out)) = length ts"
proof (cases ts rule: SerializeTrees_loop_cases)
  case ok
  show ?thesis by (simp add: loop_trees_def SerializeTrees_loop_ok [OF ok])
next
  case (bad good bad rest)
  show ?thesis by (simp add: loop_trees_def bad(1) SerializeTrees_loop_bad [OF bad(2) bad(3)])
qed


lemma Serialize_eq:
  "Serialize env mixin model out =
     (case SerializeTrees_loop env mixin (GetThresholdType model, GetLeafOutputType model)
             (trees (variant_' model)) (write_all mixin (header_layout env model) out) of
        Inl (e, ts, out') \<Rightarrow> Inl (e, header_stamped env model ts, out')
      | Inr (ts, out') \<Rightarrow> Inr (header_stamped env model ts, out'))"
  by (simp add: Serialize_def SerializeHeader_eq SerializeTrees_def Let_def GetNumTree_def
      GetThresholdType_def GetLeafOutputType_def header_stamped_def
      split: sum.splits prod.splits)

lemma serialized_model_Serialize:
  "serialized_model (Serialize env mixin model out) =
     header_stamped env model
       (loop_trees (SerializeTrees_loop env mixin (GetThresholdType model, GetLeafOutputType model)
             (trees (variant_' model)) (write_all mixin (header_layout env model) out)))"
  by (simp add: Serialize_eq serialized_model_def loop_trees_def split: sum.splits prod.splits)

lemma header_layout_stamped:
  "length ts = length (trees (variant_' model)) \<Longrightarrow>
   header_layout env (header_stamped env model ts) = header_layout env model"
  by (simp add: header_layout_def header_stamped_def GetNumTree_def GetThresholdType_def
      GetLeafOutputType_def)

lemma header_stamped_again:
  "length ts = length (trees (variant_' model)) \<Longrightarrow>
   header_stamped env (header_stamped env model ts) ts' = header_stamped env model ts'"
  by (simp add: header_stamped_def GetNumTree_def GetThresholdType_def GetLeafOutputType_def)

lemma types_stamped:
  "GetThresholdType (header_stamped env model ts) = GetThresholdType model"
  "GetLeafOutputType (header_stamped env model ts) = GetLeafOutputType model"
  "trees (variant_' (header_stamped env model ts)) = ts"
  by (simp_all add: header_stamped_def GetThresholdType_def GetLeafOutputType_def)

lemma Serialize_again:
  "Serialize env mixin (serialized_model (Serialize env mixin model out)) out
     = Serialize env mixin model out"
proof -
  let ?r = "SerializeTrees_loop env mixin (GetThresholdType model, GetLeafOutputType model)
             (trees (variant_' model)) (write_all mixin (header_layout env model) out)"
  have len: "length (loop_trees ?r) = length (trees (variant_' model))"
    by (rule length_loop_trees)
  have "Serialize env mixin (header_stamped env model (loop_trees ?r)) out
          = Serialize env mixin model out"
    unfolding Serialize_eq [of env mixin "header_stamped env model (loop_trees ?r)"]
      Serialize_eq [of env mixin model]
    by (simp only: types_stamped header_layout_stamped [OF len] header_stamped_again [OF len]
        SerializeTrees_loop_again)
  then show ?thesis
    by (simp only: serialized_model_Serialize)
qed



lemma write_all_Recording: "write_all RecordingMixIn xs acc = acc @ xs"
  by (induction xs arbitrary: acc) (simp_all add: write_all_def RecordingMixIn_def)

lemma Serialize_stale_members:
  "Serialize env mixin
     (model\<lparr>major_ver_' := a, minor_ver_' := b, patch_ver_' := c, threshold_type_' := d,
            leaf_output_type_' := e, num_tree_' := f, num_opt_field_per_model_' := g\<rparr>) out
   = Serialize env mixin model out"
  by (simp add: Serialize_eq header_layout_def header_stamped_def GetNumTree_def
      GetThresholdType_def GetLeafOutputType_def split: sum.splits prod.splits)

text \<open>
  C5. Encoding is deterministic. Serializing a model stamps it in place; serializing the
  model as the first run left it, under the same library version and on the same
  transport, gives the same outcome and the same output, and leaves the model as it was.
  The members that the serializer overwrites before writing them (version stamp, stored
  type pair, stored tree count, model-level extension count) have no influence on the
  output.
\<close>

theorem Serialize_deterministic:
  "serialized_output (Serialize env mixin (serialized_model (Serialize env mixin model out)) out)
     = serialized_output (Serialize env mixin model out)
   \<and> serialized_model (Serialize env mixin (serialized_model (Serialize env mixin model out)) out)
     = serialized_model (Serialize env mixin model out)
   \<and> Serialize env mixin
       (model\<lparr>major_ver_' := a, minor_ver_' := b, patch_ver_' := c, threshold_type_' := d,
              leaf_output_type_' := e, num_tree_' := f, num_opt_field_per_model_' := g\<rparr>) out
     = Serialize env mixin model out"
  by (simp only: Serialize_again Serialize_stale_members)

lemma SerializeTrees_loop_eq:
  "SerializeTrees_loop env mixin types ts out =
     (if list_all node_count_ok ts
      then Inr (map reset_opt_fields ts,
                write_all mixin (concat (map (tree_layout env types) ts)) out)
      else Inl (IncorrectNumberOfNodes,
                map reset_opt_fields (takeWhile node_count_ok ts) @ dropWhile node_count_ok ts,
                write_all mixin
                  (concat (map (tree_layout env types) (takeWhile node_count_ok ts))) out))"
proof (induction ts arbitrary: out)
  case Nil
  show ?case by (simp add: write_all_def)
next
  case (Cons t ts)
  show ?case
  proof (cases "node_count_ok t")
    case True
    then show ?thesis
      by (simp add: SerializeTree_ok Cons write_all_append)
  next
    case False
    then show ?thesis
      by (simp add: SerializeTree_bad write_all_def)
  qed
qed

text \<open>
  C6. Serialization writes the units of \<open>artifact_layout\<close>, in that order, on any
  transport: version triple first, numeric type pair, tree count, feature count, task
  type, average-tree-output flag, task-parameter composite, model-parameter composite,
  model-level extension count, then per tree the node count, the categorical-split flag,
  the node array, the leaf values, the leaf-range begin and end arrays, the category
  values, the category offsets, and the per-tree and per-node extension counts. When
  every tree's declared node count agrees with its node array the run succeeds and has
  written all of it; otherwise the run fails, having written the header and the records
  of the trees before the first tree that disagrees, in the same order.
\<close>

theorem Serialize_layout:
  "serialized_output (Serialize env mixin model out) =
     (if list_all node_count_ok (trees (variant_' model))
      then (None, write_all mixin (artifact_layout env model) out)
      else (Some IncorrectNumberOfNodes,
            write_all mixin
              (header_layout env model
               @ concat (map (tree_layout env (GetThresholdType model, GetLeafOutputType model))
                           (takeWhile node_count_ok (trees (variant_' model))))) out))"
  by (simp add: Serialize_eq SerializeTrees_loop_eq serialized_output_def artifact_layout_def
      write_all_append)

lemma example_model_counts_ok: "\<forall>t \<in> set (trees (variant_' example_model)). node_count_ok t"
  by (simp add: example_model_def example_tree3_def example_Tree_def node_count_ok_def
      size_t_of_int32_def)

theorem Serialize_layout_witness:
  "list_all node_count_ok (trees (variant_' example_model))
   \<and> serialized_output (Serialize example_env RecordingMixIn example_model [])
     = (None,
        [PrimitiveField (Int32 4), PrimitiveField (Int32 0), PrimitiveField (Int32 0),
         PrimitiveField (TypeInfoField kFloat32), PrimitiveField (TypeInfoField kFloat32),
         PrimitiveField (UInt64 1),
         PrimitiveField (Int32 10),
         PrimitiveField (TaskTypeField kRegressor),
         PrimitiveField (Bool False),
         CompositeField (TaskParamComposite example_TaskParam) ''T{=B=?xx=I=I}'',
         CompositeField (ModelParamComposite example_ModelParam) ''T{256s=f=f=f}'',
         PrimitiveField (Int32 0),
         PrimitiveField (Int32 3),
         PrimitiveField (Bool False),
         CompositeArray [example_split, example_leaf 1065353216, example_leaf 0]
           ''T{=l=l=L=f=Q=d=d=b=b=?=?=?=?xx}'',
         PrimitiveArray (LeafOutputElem kFloat32) [],
         PrimitiveArray SizeTElem [0, 0, 0],
         PrimitiveArray SizeTElem [0, 0, 0],
         PrimitiveArray UInt32Elem [],
         PrimitiveArray SizeTElem [0, 0, 0, 0],
         PrimitiveField (Int32 0),
         PrimitiveField (Int32 0)])"
proof -
  have h: "\<forall>t \<in> set (trees (variant_' example_model)). node_count_ok t"
    by (rule example_model_counts_ok)
  have lay: "artifact_layout example_env example_model =
        [PrimitiveField (Int32 4), PrimitiveField (Int32 0), PrimitiveField (Int32 0),
         PrimitiveField (TypeInfoField kFloat32), PrimitiveField (TypeInfoField kFloat32),
         PrimitiveField (UInt64 1),
         PrimitiveField (Int32 10),
         PrimitiveField (TaskTypeField kRegressor),
         PrimitiveField (Bool False),
         CompositeField (TaskParamComposite example_TaskParam) ''T{=B=?xx=I=I}'',
         CompositeField (ModelParamComposite example_ModelParam) ''T{256s=f=f=f}'',
         PrimitiveField (Int32 0),
         PrimitiveField (Int32 3),
         PrimitiveField (Bool False),
         CompositeArray [example_split, example_leaf 1065353216, example_leaf 0]
           ''T{=l=l=L=f=Q=d=d=b=b=?=?=?=?xx}'',
         PrimitiveArray (LeafOutputElem kFloat32) [],
         PrimitiveArray SizeTElem [0, 0, 0],
         PrimitiveArray SizeTElem [0, 0, 0],
         PrimitiveArray UInt32Elem [],
         PrimitiveArray SizeTElem [0, 0, 0, 0],
         PrimitiveField (Int32 0),
         PrimitiveField (Int32 0)]"
    by (simp add: artifact_layout_def header_layout_def tree_layout_def example_env_def
        example_model_def example_tree3_def example_Tree_def GetThresholdType_def
        GetLeafOutputType_def GetNumTree_def)
  have h': "list_all node_count_ok (trees (variant_' example_model))"
    using h by (simp only: list_all_iff)
  from lay h' Serialize_layout [where env = example_env and mixin = RecordingMixIn
      and model = example_model and out = "[]"]
  show ?thesis
    by (simp only: simp_thms if_True write_all_Recording append_Nil)
qed

text \<open>
  C4. Serialization fails fatally on a count mismatch and writes nothing past the point
  of failure: \<open>SerializeTrees\<close> fails, with the output untouched, when the number of trees
  differs from the declared tree count; \<open>SerializeTree\<close> fails, with the output untouched,
  when the declared node count differs from the length of the node array; and when the
  first tree with such a mismatch follows the trees \<open>good\<close>, the output holds the records of
  \<open>good\<close> and nothing more.
\<close>

theorem Serialize_count_mismatch:
  "(length (trees (variant_' model)) \<noteq> num_tree_' model
      \<longrightarrow> SerializeTrees env mixin model out = Inl (IncorrectNumberOfTrees, model, out))
   \<and> (size_t_of_int32 (num_nodes tree) \<noteq> length (nodes_' tree)
      \<longrightarrow> SerializeTree env mixin types tree out = Inl (IncorrectNumberOfNodes, tree, out))
   \<and> (length (trees (variant_' model)) = num_tree_' model
       \<and> trees (variant_' model) = good @ bad # rest
       \<and> (\<forall>t \<in> set good. node_count_ok t) \<and> \<not> node_count_ok bad
      \<longrightarrow> serialized_output (SerializeTrees env mixin model out)
          = (Some IncorrectNumberOfNodes,
             write_all mixin
               (concat (map (tree_layout env (GetThresholdType model, GetLeafOutputType model))
                  good)) out))"
proof (intro conjI impI)
  assume "length (trees (variant_' model)) \<noteq> num_tree_' model"
  then show "SerializeTrees env mixin model out = Inl (IncorrectNumberOfTrees, model, out)"
    by (simp add: SerializeTrees_def)
next
  assume "size_t_of_int32 (num_nodes tree) \<noteq> length (nodes_' tree)"
  then show "SerializeTree env mixin types tree out = Inl (IncorrectNumberOfNodes, tree, out)"
    by (simp add: SerializeTree_def)
next
  assume a: "length (trees (variant_' model)) = num_tree_' model
       \<and> trees (variant_' model) = good @ bad # rest
       \<and> (\<forall>t \<in> set good. node_count_ok t) \<and> \<not> node_count_ok bad"
  then have g: "\<forall>t \<in> set good. node_count_ok t" and b: "\<not> node_count_ok bad"
    by simp_all
  from a have l: "length (trees (variant_' model)) = num_tree_' model"
    and t: "trees (variant_' model) = good @ bad # rest"
    by blast+
  have len: "length (good @ bad # rest) = num_tree_' model"
    using l unfolding t .
  show "serialized_output (SerializeTrees env mixin model out)
          = (Some IncorrectNumberOfNodes,
             write_all mixin
               (concat (map (tree_layout env (GetThresholdType model, GetLeafOutputType model))
                  good)) out)"
    using t len
    by (simp add: SerializeTrees_def Let_def SerializeTrees_loop_bad [OF g b]
        serialized_output_def GetThresholdType_def GetLeafOutputType_def)
qed


theorem Serialize_count_mismatch_witness:
  "length (trees (variant_' (example_model\<lparr>num_tree_' := 2\<rparr>)))
     \<noteq> num_tree_' (example_model\<lparr>num_tree_' := 2\<rparr>)
   \<and> SerializeTrees example_env RecordingMixIn (example_model\<lparr>num_tree_' := 2\<rparr>) []
       = Inl (IncorrectNumberOfTrees, example_model\<lparr>num_tree_' := 2\<rparr>, [])
   \<and> size_t_of_int32 (num_nodes (example_tree3\<lparr>num_nodes := 2\<rparr>))
       \<noteq> length (nodes_' (example_tree3\<lparr>num_nodes := 2\<rparr>))
   \<and> SerializeTree example_env RecordingMixIn (kFloat32, kFloat32)
         (example_tree3\<lparr>num_nodes := 2\<rparr>) []
       = Inl (IncorrectNumberOfNodes, example_tree3\<lparr>num_nodes := 2\<rparr>, [])
   \<and> \<not> node_count_ok (example_tree3\<lparr>num_nodes := 2\<rparr>)
   \<and> serialized_output
         (SerializeTrees example_env RecordingMixIn
            (example_model\<lparr>num_tree_' := 2,
               variant_' := (variant_' example_model)
                 \<lparr>trees := [example_tree3, example_tree3\<lparr>num_nodes := 2\<rparr>]\<rparr>\<rparr>) [])
       = (Some IncorrectNumberOfNodes,
          tree_layout example_env (kFloat32, kFloat32) example_tree3)"
proof -
  let ?bad = "example_tree3\<lparr>num_nodes := 2\<rparr>"
  let ?m = "example_model\<lparr>num_tree_' := 2,
               variant_' := (variant_' example_model)\<lparr>trees := [example_tree3, ?bad]\<rparr>\<rparr>"
  have a: "length (trees (variant_' (example_model\<lparr>num_tree_' := 2\<rparr>)))
             \<noteq> num_tree_' (example_model\<lparr>num_tree_' := 2\<rparr>)"
    by (simp add: example_model_def)
  have b: "size_t_of_int32 (num_nodes ?bad) \<noteq> length (nodes_' ?bad)"
    by (simp add: example_tree3_def example_Tree_def size_t_of_int32_def)
  have c: "length (trees (variant_' ?m)) = num_tree_' ?m
       \<and> trees (variant_' ?m) = [example_tree3] @ ?bad # []
       \<and> (\<forall>t \<in> set [example_tree3]. node_count_ok t) \<and> \<not> node_count_ok ?bad"
    by (simp add: example_model_def example_tree3_def example_Tree_def node_count_ok_def
        size_t_of_int32_def)
  have d: "write_all RecordingMixIn
             (concat (map (tree_layout example_env (GetThresholdType ?m, GetLeafOutputType ?m))
                [example_tree3])) []
           = tree_layout example_env (kFloat32, kFloat32) example_tree3"
    by (simp add: write_all_Recording GetThresholdType_def GetLeafOutputType_def
        example_model_def)
  note inst1 = Serialize_count_mismatch [where env = example_env and mixin = RecordingMixIn
      and model = "example_model\<lparr>num_tree_' := 2\<rparr>" and out = "[]"
      and tree = ?bad and types = "(kFloat32, kFloat32)"]
  note inst2 = Serialize_count_mismatch [where env = example_env and mixin = RecordingMixIn
      and model = ?m and out = "[]" and good = "[example_tree3]" and bad = ?bad
      and rest = "[]"]
  from inst1 [THEN conjunct1, rule_format, OF a]
    inst1 [THEN conjunct2, THEN conjunct1, rule_format, OF b]
    inst2 [THEN conjunct2, THEN conjunct2, rule_format, OF c, unfolded d] a b c
  show ?thesis
    by (intro conjI) simp_all
qed
subsection \<open>Deserializer: the version gate and the legacy header\<close>

lemma and_then_Inr [simp]: "and_then (Inr x) f = f x"
  by (simp add: and_then_def)

lemma and_then_Inl [simp]: "and_then (Inl e) f = Inl e"
  by (simp add: and_then_def)

lemma and_then_eq_Inr:
  "and_then r f = Inr y \<longleftrightarrow> (\<exists>x. r = Inr x \<and> f x = Inr y)"
  by (cases r) simp_all

text \<open>
  C2. The version triple is read before anything else, and the decoder then decides in
  this order: a stored major version other than the current one, for a stored version
  other than 3.9, is a fatal error; the stored version 3.9 is decoded by the legacy
  header decoder, after a warning; a stored minor version above the current one (the
  major version being the current one) is decoded by the header decoder of the current
  format, after a warning; anything else by the header decoder of the current format,
  with no log entry.
\<close>

theorem DeserializeHeaderAndCreateModel_version_gate:
  assumes "DeserializePrimitiveField_int32 mixin s0 = Inr (major_ver, s1)"
    and "DeserializePrimitiveField_int32 mixin s1 = Inr (minor_ver, s2)"
    and "DeserializePrimitiveField_int32 mixin s2 = Inr (patch_ver, s3)"
  shows "DeserializeHeaderAndCreateModel env mixin s0 =
     (if major_ver \<noteq> TREELITE_VER_MAJOR env \<and> \<not> (major_ver = 3 \<and> minor_ver = 9)
      then ([], Inl (DifferentMajorVersion major_ver minor_ver patch_ver))
      else if major_ver = 3 \<and> minor_ver = 9
      then ([OriginatedFromV39],
            DeserializeHeaderAndCreateModelV3 env mixin major_ver minor_ver patch_ver s3)
      else if major_ver = TREELITE_VER_MAJOR env \<and> minor_ver > TREELITE_VER_MINOR env
      then ([OriginatedFromNewerVersion major_ver minor_ver patch_ver],
            DeserializeHeaderAndCreateModel_current env mixin major_ver minor_ver patch_ver s3)
      else ([],
            DeserializeHeaderAndCreateModel_current env mixin major_ver minor_ver patch_ver s3))"
  using assms by (simp add: DeserializeHeaderAndCreateModel_def Let_def)

lemma PyBuffer_read_int32:
  "DeserializePrimitiveField_int32 PyBufferDeserializerMixIn
     (frame_of (PrimitiveField (Int32 v)) # frames) = Inr (v, frames)"
  by (simp add: DeserializePrimitiveField_int32_def PyBufferDeserializerMixIn_def)

theorem DeserializeHeaderAndCreateModel_version_gate_witness:
  "DeserializeHeaderAndCreateModel example_env PyBufferDeserializerMixIn
     [frame_of (PrimitiveField (Int32 2)), frame_of (PrimitiveField (Int32 7)),
      frame_of (PrimitiveField (Int32 1))]
     = ([], Inl (DifferentMajorVersion 2 7 1))
   \<and> DeserializeHeaderAndCreateModel example_env PyBufferDeserializerMixIn
     [frame_of (PrimitiveField (Int32 3)), frame_of (PrimitiveField (Int32 9)),
      frame_of (PrimitiveField (Int32 1))]
     = ([OriginatedFromV39],
        DeserializeHeaderAndCreateModelV3 example_env PyBufferDeserializerMixIn 3 9 1 [])
   \<and> DeserializeHeaderAndCreateModel example_env PyBufferDeserializerMixIn
     [frame_of (PrimitiveField (Int32 4)), frame_of (PrimitiveField (Int32 1)),
      frame_of (PrimitiveField (Int32 0))]
     = ([OriginatedFromNewerVersion 4 1 0],
        DeserializeHeaderAndCreateModel_current example_env PyBufferDeserializerMixIn 4 1 0 [])
   \<and> DeserializeHeaderAndCreateModel example_env PyBufferDeserializerMixIn
     [frame_of (PrimitiveField (Int32 4)), frame_of (PrimitiveField (Int32 0)),
      frame_of (PrimitiveField (Int32 5))]
     = ([],
        DeserializeHeaderAndCreateModel_current example_env PyBufferDeserializerMixIn 4 0 5 [])"
proof -
  note gate = DeserializeHeaderAndCreateModel_version_gate
      [OF PyBuffer_read_int32 PyBuffer_read_int32 PyBuffer_read_int32,
       where env = example_env]
  have v: "TREELITE_VER_MAJOR example_env = 4" "TREELITE_VER_MINOR example_env = 0"
    by (simp_all add: example_env_def)
  show ?thesis
    by (intro conjI; simp only: gate v; simp)
qed


text \<open>
  C10. Whenever the legacy header decoder returns a model, it has read the type pair,
  the tree count, the feature count, the legacy task type, the average-tree-output flag,
  the two legacy parameter composites and the extension count, in this order, and the
  model is the one \<open>Create\<close> returned with only the version triple, the tree count, the
  feature count, the average-tree-output flag and the extension count overwritten: its
  task type, task parameters and model parameters are those of the freshly created
  model, whatever the artifact stored.
\<close>

theorem DeserializeHeaderAndCreateModelV3_frame:
  assumes "DeserializeHeaderAndCreateModelV3 env mixin major_ver minor_ver patch_ver s0
             = Inr (model, s')"
  shows "\<exists>threshold_type s1 leaf_output_type s2 fresh num_tree s3 nf s4 task_type_v3 s5 avg s6
            task_param_v3 s7 model_param_v3 s8 k s9.
      DeserializePrimitiveField_TypeInfo mixin s0 = Inr (threshold_type, s1)
    \<and> DeserializePrimitiveField_TypeInfo mixin s1 = Inr (leaf_output_type, s2)
    \<and> Create env threshold_type leaf_output_type = Inr fresh
    \<and> DeserializePrimitiveField_uint64 mixin s2 = Inr (num_tree, s3)
    \<and> DeserializePrimitiveField_int32 mixin s3 = Inr (nf, s4)
    \<and> DeserializePrimitiveField_TaskTypeV3 mixin s4 = Inr (task_type_v3, s5)
    \<and> DeserializePrimitiveField_bool mixin s5 = Inr (avg, s6)
    \<and> DeserializeCompositeField_TaskParam mixin s6 = Inr (task_param_v3, s7)
    \<and> DeserializeCompositeField_ModelParam mixin s7 = Inr (model_param_v3, s8)
    \<and> DeserializePrimitiveField_int32 mixin s8 = Inr (k, s9)
    \<and> SkipOptionalFields mixin (nat k) s9 = Inr s'
    \<and> model = fresh\<lparr>major_ver_' := major_ver, minor_ver_' := minor_ver,
                     patch_ver_' := patch_ver, num_tree_' := num_tree, num_feature := nf,
                     average_tree_output := avg, num_opt_field_per_model_' := k\<rparr>
    \<and> task_type model = task_type fresh
    \<and> task_param model = task_param fresh
    \<and> param model = param fresh
    \<and> variant_' model = variant_' fresh"
  using assms
  by (auto simp add: DeserializeHeaderAndCreateModelV3_def and_then_eq_Inr Let_def)


lemmas Stream_reads =
  DeserializePrimitiveField_int32_def DeserializePrimitiveField_uint64_def
  DeserializePrimitiveField_bool_def DeserializePrimitiveField_TypeInfo_def
  DeserializePrimitiveField_TaskType_def DeserializePrimitiveField_TaskTypeV3_def
  DeserializeCompositeField_TaskParam_def DeserializeCompositeField_ModelParam_def
  StreamDeserializerMixIn_def Stream_read_run_def Stream_read_composite_array_def
  Stream_read_primitive_array_def Stream_skip_def

lemma example_v3_header_decode:
  "DeserializeHeaderAndCreateModelV3 example_env StreamDeserializerMixIn 3 9 1
     (example_v3_header @ rest) = Inr (example_v3_model, rest)"
  by (simp add: DeserializeHeaderAndCreateModelV3_def example_v3_header_def Stream_reads
      example_env_def example_Create_def example_v3_model_def Let_def)

theorem DeserializeHeaderAndCreateModelV3_frame_witness:
  "DeserializeHeaderAndCreateModelV3 example_env StreamDeserializerMixIn 3 9 1
     (example_v3_header @ example_v3_tree_record) = Inr (example_v3_model, example_v3_tree_record)
   \<and> (\<exists>fresh. example_Create kFloat32 kFloat32 = Inr fresh
        \<and> task_type example_v3_model = task_type fresh
        \<and> task_param example_v3_model = task_param fresh
        \<and> param example_v3_model = param fresh)
   \<and> task_type example_v3_model = kBinaryClf
   \<and> task_param example_v3_model \<noteq> example_v3_TaskParam
   \<and> param example_v3_model \<noteq> example_v3_ModelParam
   \<and> num_tree_' example_v3_model = 1 \<and> num_feature example_v3_model = 10
   \<and> average_tree_output example_v3_model
   \<and> major_ver_' example_v3_model = 3 \<and> minor_ver_' example_v3_model = 9
   \<and> patch_ver_' example_v3_model = 1"
proof -
  have run: "DeserializeHeaderAndCreateModelV3 example_env StreamDeserializerMixIn 3 9 1
     (example_v3_header @ example_v3_tree_record) = Inr (example_v3_model, example_v3_tree_record)"
    by (rule example_v3_header_decode)
  from DeserializeHeaderAndCreateModelV3_frame [OF run]
  obtain threshold_type s1 leaf_output_type s2 fresh where
    r1: "DeserializePrimitiveField_TypeInfo StreamDeserializerMixIn
           (example_v3_header @ example_v3_tree_record) = Inr (threshold_type, s1)"
    and r2: "DeserializePrimitiveField_TypeInfo StreamDeserializerMixIn s1
           = Inr (leaf_output_type, s2)"
    and c: "Create example_env threshold_type leaf_output_type = Inr fresh"
    and f: "task_type example_v3_model = task_type fresh"
      "task_param example_v3_model = task_param fresh"
      "param example_v3_model = param fresh"
    by blast
  from r1 have t1: "threshold_type = kFloat32"
    and s1: "s1 = tl (example_v3_header @ example_v3_tree_record)"
    by (simp_all add: example_v3_header_def Stream_reads)
  from r2 have t2: "leaf_output_type = kFloat32"
    unfolding s1 by (simp add: example_v3_header_def Stream_reads)
  from c have c': "example_Create kFloat32 kFloat32 = Inr fresh"
    by (simp add: t1 t2 example_env_def)
  have rest: "task_type example_v3_model = kBinaryClf
     \<and> task_param example_v3_model \<noteq> example_v3_TaskParam
     \<and> param example_v3_model \<noteq> example_v3_ModelParam
     \<and> num_tree_' example_v3_model = 1 \<and> num_feature example_v3_model = 10
     \<and> average_tree_output example_v3_model
     \<and> major_ver_' example_v3_model = 3 \<and> minor_ver_' example_v3_model = 9
     \<and> patch_ver_' example_v3_model = 1"
    by (simp add: example_v3_model_def example_TaskParam_def example_v3_TaskParam_def
        example_ModelParam_def example_v3_ModelParam_def)
  from run c' f rest show ?thesis
    by (intro conjI exI [of _ fresh]) simp_all
qed

subsection \<open>Decoding what the serializer wrote\<close>

lemma DeserializeTrees_loop_eq:
  "DeserializeTrees_loop env mixin n ts s = Inr (ts @ replicate n (Tree_ctor env), s)"
  by (induction n arbitrary: ts) (simp_all add: DeserializeTree_def replicate_app_Cons_same)

lemma DeserializeTrees_eq:
  "DeserializeTrees env mixin model s =
     Inr (model\<lparr>variant_' := (variant_' model)
                   \<lparr>trees := replicate (num_tree_' model) (Tree_ctor env)\<rparr>\<rparr>, s)"
  by (simp add: DeserializeTrees_def DeserializeTrees_loop_eq)

lemma write_all_PyBuffer:
  "write_all PyBufferSerializerMixIn xs frames = frames @ map frame_of xs"
  by (induction xs arbitrary: frames) (simp_all add: write_all_def PyBufferSerializerMixIn_def)

lemma write_all_Stream:
  "write_all StreamSerializerMixIn xs os = os @ concat (map cells_of xs)"
  by (induction xs arbitrary: os) (simp_all add: write_all_def StreamSerializerMixIn_def)

lemmas PyBuffer_reads =
  DeserializePrimitiveField_int32_def DeserializePrimitiveField_uint64_def
  DeserializePrimitiveField_bool_def DeserializePrimitiveField_TypeInfo_def
  DeserializePrimitiveField_TaskType_def DeserializePrimitiveField_TaskTypeV3_def
  DeserializeCompositeField_TaskParam_def DeserializeCompositeField_ModelParam_def
  PyBufferDeserializerMixIn_def

lemma header_decode_PyBuffer:
  assumes "TREELITE_VER_MAJOR env \<noteq> 3"
  shows "DeserializeHeaderAndCreateModel env PyBufferDeserializerMixIn
           (map frame_of (header_layout env model) @ rest)
         = ([], and_then (Create env (GetThresholdType model) (GetLeafOutputType model))
                  (\<lambda>fresh. if 3 \<le> TREELITE_VER_MAJOR env
                     then Inr (decoded_header env model fresh, rest)
                     else Inl OnlyFormatV3OrLater))"
  using assms
  by (simp add: DeserializeHeaderAndCreateModel_def DeserializeHeaderAndCreateModel_current_def
      header_layout_def PyBuffer_reads Let_def decoded_header_def cong: if_cong)

lemma header_decode_Stream:
  assumes "TREELITE_VER_MAJOR env \<noteq> 3"
  shows "DeserializeHeaderAndCreateModel env StreamDeserializerMixIn
           (concat (map cells_of (header_layout env model)) @ rest)
         = ([], and_then (Create env (GetThresholdType model) (GetLeafOutputType model))
                  (\<lambda>fresh. if 3 \<le> TREELITE_VER_MAJOR env
                     then Inr (decoded_header env model fresh, rest)
                     else Inl OnlyFormatV3OrLater))"
  using assms
  by (simp add: DeserializeHeaderAndCreateModel_def DeserializeHeaderAndCreateModel_current_def
      header_layout_def Stream_reads Let_def decoded_header_def cong: if_cong)

lemma CreateFromPyBuffer_artifact:
  assumes "TREELITE_VER_MAJOR env \<noteq> 3"
  shows "CreateFromPyBuffer env (map frame_of (artifact_layout env model))
         = ([], and_then (Create env (GetThresholdType model) (GetLeafOutputType model))
                  (\<lambda>fresh. if 3 \<le> TREELITE_VER_MAJOR env
                     then Inr (decoded_model env model fresh)
                     else Inl OnlyFormatV3OrLater))"
proof (cases "Create env (GetThresholdType model) (GetLeafOutputType model)")
  case (Inl e)
  then show ?thesis
    by (simp add: CreateFromPyBuffer_def artifact_layout_def header_decode_PyBuffer [OF assms])
next
  case (Inr fresh)
  then show ?thesis
    by (simp add: CreateFromPyBuffer_def artifact_layout_def header_decode_PyBuffer [OF assms]
        DeserializeTrees_eq decoded_model_def decoded_header_def)
qed

lemma DeserializeFromStream_artifact:
  assumes "TREELITE_VER_MAJOR env \<noteq> 3"
  shows "DeserializeFromStream env (concat (map cells_of (artifact_layout env model)))
         = ([], and_then (Create env (GetThresholdType model) (GetLeafOutputType model))
                  (\<lambda>fresh. if 3 \<le> TREELITE_VER_MAJOR env
                     then Inr (decoded_model env model fresh)
                     else Inl OnlyFormatV3OrLater))"
proof (cases "Create env (GetThresholdType model) (GetLeafOutputType model)")
  case (Inl e)
  then show ?thesis
    by (simp add: DeserializeFromStream_def artifact_layout_def header_decode_Stream [OF assms])
next
  case (Inr fresh)
  then show ?thesis
    using assms
    by (simp add: DeserializeFromStream_def artifact_layout_def header_decode_Stream [OF assms]
        DeserializeTrees_eq decoded_model_def decoded_header_def)
qed

lemma Serialize_ok:
  assumes "\<forall>t \<in> set (trees (variant_' model)). node_count_ok t"
  shows "Serialize env mixin model out
         = Inr (header_stamped env model (map reset_opt_fields (trees (variant_' model))),
                write_all mixin (artifact_layout env model) out)"
  by (simp add: Serialize_eq SerializeTrees_loop_ok [OF assms] artifact_layout_def
      write_all_append)

lemma Serialize_bad:
  assumes "\<not> (\<forall>t \<in> set (trees (variant_' model)). node_count_ok t)"
  shows "\<exists>model' out'. Serialize env mixin model out = Inl (IncorrectNumberOfNodes, model', out')"
proof (cases "trees (variant_' model)" rule: SerializeTrees_loop_cases)
  case ok
  with assms show ?thesis by simp
next
  case (bad good bad rest)
  show ?thesis
    by (simp add: Serialize_eq bad(1) SerializeTrees_loop_bad [OF bad(2) bad(3)])
qed

lemma transport_outcomes_agree:
  assumes "TREELITE_VER_MAJOR env \<noteq> 3"
  shows "(\<forall>e. (\<exists>model'. GetPyBuffer env model = Inl (e, model'))
              \<longleftrightarrow> (\<exists>model' os. SerializeToStream env model [] = Inl (e, model', os)))
       \<and> (\<forall>model1 frames model2 os.
             GetPyBuffer env model = Inr (model1, frames)
             \<and> SerializeToStream env model [] = Inr (model2, os)
             \<longrightarrow> CreateFromPyBuffer env frames = DeserializeFromStream env os)"
proof (cases "\<forall>t \<in> set (trees (variant_' model)). node_count_ok t")
  case True
  show ?thesis
    by (simp add: GetPyBuffer_def SerializeToStream_def Serialize_ok [OF True]
        write_all_PyBuffer write_all_Stream CreateFromPyBuffer_artifact [OF assms]
        DeserializeFromStream_artifact [OF assms])
next
  case False
  from Serialize_bad [OF False, of env PyBufferSerializerMixIn "[]"]
  obtain m1 o1 where a: "Serialize env PyBufferSerializerMixIn model []
      = Inl (IncorrectNumberOfNodes, m1, o1)"
    by blast
  from Serialize_bad [OF False, of env StreamSerializerMixIn "[]"]
  obtain m2 o2 where b: "Serialize env StreamSerializerMixIn model []
      = Inl (IncorrectNumberOfNodes, m2, o2)"
    by blast
  show ?thesis
    by (simp add: GetPyBuffer_def SerializeToStream_def a b)
qed

subsection \<open>The example model through both transports\<close>

lemma example_model_stamped:
  "header_stamped example_env example_model
     (map reset_opt_fields (trees (variant_' example_model))) = example_model"
  by (simp add: header_stamped_def example_env_def example_model_def reset_opt_fields_def
      example_tree3_def example_Tree_def GetThresholdType_def GetLeafOutputType_def
      GetNumTree_def)

lemma example_model_decoded:
  "and_then (Create example_env (GetThresholdType example_model) (GetLeafOutputType example_model))
     (\<lambda>fresh. if 3 \<le> TREELITE_VER_MAJOR example_env
        then Inr (decoded_model example_env example_model fresh)
        else Inl OnlyFormatV3OrLater)
   = Inr (example_model\<lparr>variant_' := (variant_' example_model)\<lparr>trees := [example_Tree]\<rparr>\<rparr>)"
  by (simp add: example_env_def example_model_def example_Create_def decoded_model_def
      decoded_header_def GetThresholdType_def GetLeafOutputType_def GetNumTree_def)

lemma example_major: "TREELITE_VER_MAJOR example_env \<noteq> 3"
  by (simp add: example_env_def)

text \<open>
  C1. Round trip: decoding what was encoded under the same library version should give
  the model back, the version stamp apart. The header does come back; the trees do not.
  The tree decoder of the current format reads nothing, so the decoded model holds one
  default-constructed tree for each tree that was encoded. Here the example model of the
  design (one tree of three nodes) is encoded and decoded on both transports: the decoded
  tree is the empty default tree.
\<close>

theorem roundtrip_loses_trees:
  "GetPyBuffer example_env example_model
     = Inr (example_model, map frame_of (artifact_layout example_env example_model))
   \<and> CreateFromPyBuffer example_env (map frame_of (artifact_layout example_env example_model))
     = ([], Inr (example_model\<lparr>variant_' := (variant_' example_model)\<lparr>trees := [example_Tree]\<rparr>\<rparr>))
   \<and> SerializeToStream example_env example_model []
     = Inr (example_model, concat (map cells_of (artifact_layout example_env example_model)))
   \<and> DeserializeFromStream example_env
       (concat (map cells_of (artifact_layout example_env example_model)))
     = ([], Inr (example_model\<lparr>variant_' := (variant_' example_model)\<lparr>trees := [example_Tree]\<rparr>\<rparr>))
   \<and> trees (variant_' example_model) = [example_tree3]
   \<and> example_tree3 \<noteq> example_Tree"
  by (simp add: GetPyBuffer_def SerializeToStream_def Serialize_ok [OF example_model_counts_ok]
      example_model_stamped write_all_PyBuffer write_all_Stream
      CreateFromPyBuffer_artifact [OF example_major]
      DeserializeFromStream_artifact [OF example_major] example_model_decoded)
    (simp add: example_model_def example_tree3_def example_Tree_def)









subsection \<open>Tree records\<close>

lemma DeserializeTreeV3_nodes_untouched:
  assumes "DeserializeTreeV3 mixin tree s = Inr (tree', s')"
  shows "nodes_' tree' = nodes_' tree"
  using assms
  by (auto simp add: DeserializeTreeV3_def and_then_eq_Inr Let_def split: if_splits)

lemma DeserializeTreeV3_length_checked:
  assumes "DeserializeTreeV3 mixin tree s = Inr (tree', s')"
  shows "\<exists>v s1 b s2 nodes s3.
           DeserializePrimitiveField_int32 mixin s = Inr (v, s1)
         \<and> DeserializePrimitiveField_bool mixin s1 = Inr (b, s2)
         \<and> DeserializeCompositeArray mixin s2 = Inr (nodes, s3)
         \<and> num_nodes tree' = v
         \<and> size_t_of_int32 v = length nodes"
  using assms
  by (auto simp add: DeserializeTreeV3_def and_then_eq_Inr Let_def split: if_splits)

lemma DeserializeTreeV3_length_mismatch:
  assumes "DeserializePrimitiveField_int32 mixin s = Inr (v, s1)"
    and "DeserializePrimitiveField_bool mixin s1 = Inr (b, s2)"
    and "DeserializeCompositeArray mixin s2 = Inr (nodes, s3)"
    and "size_t_of_int32 v \<noteq> length nodes"
  shows "DeserializeTreeV3 mixin tree s = Inl CouldNotLoadNodes"
  using assms by (simp add: DeserializeTreeV3_def)

lemma DeserializeTreeV3_skips:
  assumes "DeserializeTreeV3 mixin tree s = Inr (tree', s')"
  shows "\<exists>s1 s2 s3 s4.
           DeserializePrimitiveField_int32 mixin s1 = Inr (num_opt_field_per_tree_' tree', s2)
         \<and> SkipOptionalFields mixin (nat (num_opt_field_per_tree_' tree')) s2 = Inr s3
         \<and> DeserializePrimitiveField_int32 mixin s3 = Inr (num_opt_field_per_node_' tree', s4)
         \<and> SkipOptionalFields mixin (nat (num_opt_field_per_node_' tree')) s4 = Inr s'"
  using assms
  by (auto simp add: DeserializeTreeV3_def and_then_eq_Inr Let_def split: if_splits) blast

lemma DeserializeHeaderAndCreateModelV3_skips:
  assumes "DeserializeHeaderAndCreateModelV3 env mixin major_ver minor_ver patch_ver s
             = Inr (model, s')"
  shows "\<exists>s1 s2.
           DeserializePrimitiveField_int32 mixin s1 = Inr (num_opt_field_per_model_' model, s2)
         \<and> SkipOptionalFields mixin (nat (num_opt_field_per_model_' model)) s2 = Inr s'"
  using assms
  by (auto simp add: DeserializeHeaderAndCreateModelV3_def and_then_eq_Inr Let_def) blast

lemma DeserializeHeaderAndCreateModel_current_skips:
  assumes "DeserializeHeaderAndCreateModel_current env mixin major_ver minor_ver patch_ver s
             = Inr (model, s')"
  shows "\<exists>s1 s2.
           DeserializePrimitiveField_int32 mixin s1 = Inr (num_opt_field_per_model_' model, s2)
         \<and> SkipOptionalFields mixin (nat (num_opt_field_per_model_' model)) s2 = Inr s'"
  using assms
  by (auto simp add: DeserializeHeaderAndCreateModel_current_def and_then_eq_Inr Let_def
      split: if_splits) blast

lemma SkipOptionalField_PyBuffer:
  "SkipOptionalField PyBufferDeserializerMixIn = PyBuffer_skip"
  by (simp add: PyBufferDeserializerMixIn_def)

lemma SkipOptionalFields_PyBuffer:
  "SkipOptionalFields PyBufferDeserializerMixIn k frames
     = (if k \<le> length frames then Inr (drop k frames) else Inl EndOfInput)"
proof (induction k arbitrary: frames)
  case 0
  show ?case by simp
next
  case (Suc k)
  show ?case
    by (cases frames) (simp_all add: Suc SkipOptionalField_PyBuffer)
qed

lemma Stream_read_int32:
  "DeserializePrimitiveField_int32 StreamDeserializerMixIn (ScalarCell (Int32 v) # is)
     = Inr (v, is)"
  by (simp add: DeserializePrimitiveField_int32_def StreamDeserializerMixIn_def)

lemma example_version:
  "TREELITE_VER_MAJOR example_env = 4" "TREELITE_VER_MINOR example_env = 0"
  "TREELITE_VER_PATCH example_env = 0"
  by (simp_all add: example_env_def)

lemma example_v3_tree_decode:
  "DeserializeTreeV3 StreamDeserializerMixIn example_Tree (example_v3_tree_record @ rest)
     = Inr (example_v3_decoded_tree, rest)"
  by (simp add: DeserializeTreeV3_def example_v3_tree_record_def Stream_reads Let_def
      size_t_of_int32_def example_v3_decoded_tree_def example_Tree_def)

text \<open>
  C3. Node-count invariant: after a successful decode the node array of each tree should
  be as long as the declared node count. \<open>DeserializeTreeV3\<close> checks the length of the node
  array it decodes (\<open>DeserializeTreeV3_length_checked\<close>,
  \<open>DeserializeTreeV3_length_mismatch\<close>) but never stores it
  (\<open>DeserializeTreeV3_nodes_untouched\<close>): the legacy artifact with one tree of three nodes
  decodes to a tree that declares three nodes and holds none.
\<close>

theorem legacy_tree_without_nodes:
  "DeserializeFromStream example_env example_v3_stream
     = ([OriginatedFromV39],
        Inr (example_v3_model
               \<lparr>variant_' := (variant_' example_v3_model)
                  \<lparr>trees := [example_v3_decoded_tree]\<rparr>\<rparr>))
   \<and> num_nodes example_v3_decoded_tree = 3
   \<and> nodes_' example_v3_decoded_tree = []
   \<and> \<not> node_count_ok example_v3_decoded_tree"
proof -
  have gate: "DeserializeHeaderAndCreateModel example_env StreamDeserializerMixIn
                example_v3_stream
              = ([OriginatedFromV39], Inr (example_v3_model, example_v3_tree_record))"
    by (simp add: DeserializeHeaderAndCreateModel_def example_v3_stream_def Stream_read_int32
        example_v3_header_decode example_version)
  have trees: "DeserializeTreesV3 example_env StreamDeserializerMixIn example_v3_model
                 example_v3_tree_record
               = Inr (example_v3_model
                        \<lparr>variant_' := (variant_' example_v3_model)
                           \<lparr>trees := [example_v3_decoded_tree]\<rparr>\<rparr>, [])"
    using example_v3_tree_decode [of "[]"]
    by (simp add: DeserializeTreesV3_def example_v3_model_def example_env_def)
  have m: "major_ver_' example_v3_model = 3"
    by (simp add: example_v3_model_def)
  have t: "num_nodes example_v3_decoded_tree = 3
     \<and> nodes_' example_v3_decoded_tree = []
     \<and> \<not> node_count_ok example_v3_decoded_tree"
    by (simp add: example_v3_decoded_tree_def example_Tree_def node_count_ok_def
        size_t_of_int32_def)
  show ?thesis
    by (simp add: DeserializeFromStream_def gate trees m t)
qed

text \<open>
  C7. Extension fields: each count should be read and that many fields skipped. Both
  header decoders and \<open>DeserializeTreeV3\<close> do so (\<open>DeserializeHeaderAndCreateModelV3_skips\<close>,
  \<open>DeserializeHeaderAndCreateModel_current_skips\<close>, \<open>DeserializeTreeV3_skips\<close>). The tree
  decoder of the current format does not: on an artifact of version 4.1.0 with two
  model-level extension fields and one per-tree extension field, the header decoder skips
  the two and stops at the tree record, and the tree decoder then leaves all eleven frames
  of the record unread, the per-tree count and its field among them.
\<close>

theorem current_tree_record_not_read:
  "DeserializeHeaderAndCreateModel example_env PyBufferDeserializerMixIn
     (example_future_header @ example_future_tree_record)
     = ([OriginatedFromNewerVersion 4 1 0],
        Inr (example_future_model, example_future_tree_record))
   \<and> DeserializeTrees example_env PyBufferDeserializerMixIn example_future_model
       example_future_tree_record
     = Inr (example_future_model
              \<lparr>variant_' := (variant_' example_future_model)\<lparr>trees := [example_Tree]\<rparr>\<rparr>,
            example_future_tree_record)
   \<and> CreateFromPyBuffer example_env (example_future_header @ example_future_tree_record)
     = ([OriginatedFromNewerVersion 4 1 0],
        Inr (example_future_model
               \<lparr>variant_' := (variant_' example_future_model)\<lparr>trees := [example_Tree]\<rparr>\<rparr>))
   \<and> num_opt_field_per_tree_' example_Tree = 0
   \<and> length example_future_tree_record = 11"
proof -
  have gate: "DeserializeHeaderAndCreateModel example_env PyBufferDeserializerMixIn
     (example_future_header @ example_future_tree_record)
     = ([OriginatedFromNewerVersion 4 1 0],
        Inr (example_future_model, example_future_tree_record))"
    by (simp add: DeserializeHeaderAndCreateModel_def
        DeserializeHeaderAndCreateModel_current_def example_future_header_def PyBuffer_reads
        example_env_def example_Create_def example_future_model_def example_model_def
        Let_def eval_nat_numeral)
  have trees: "DeserializeTrees example_env PyBufferDeserializerMixIn example_future_model
       example_future_tree_record
     = Inr (example_future_model
              \<lparr>variant_' := (variant_' example_future_model)\<lparr>trees := [example_Tree]\<rparr>\<rparr>,
            example_future_tree_record)"
    by (simp add: DeserializeTrees_eq example_future_model_def example_model_def
        example_env_def)
  show ?thesis
    by (simp add: CreateFromPyBuffer_def gate trees)
      (simp add: example_Tree_def example_future_tree_record_def)
qed


end
